theory Spec2Isabelle
  imports
    Complex_Main
    "HOL-Library.Log_Nat"
    "HOL-Library.Char_ord"
    "HOL-Library.List_Lexorder"
begin

section \<open>Numbers of the program\<close>

subsection \<open>double\<close>

text \<open>
  Every price and ratio of the program is a C++ \<^verbatim>\<open>double\<close>. A finite binary64 value is a
  rational number, so \<open>double\<close> is \<^typ>\<open>rat\<close> here, comparisons are the exact ones, and each
  arithmetic operation of the source (\<^verbatim>\<open>+\<close>, \<^verbatim>\<open>-\<close>, \<^verbatim>\<open>*\<close>) is the exact operation followed by
  one rounding to the nearest binary64 value, ties to even (\<open>rnd\<close>): 53 significant bits,
  and the fixed quantum \<open>pow2 (- 1074)\<close> in the subnormal range. A decimal literal of the source
  (\<^verbatim>\<open>0.382\<close>) is the rounding of its decimal value.

  What is left out: infinities and NaN. A result beyond the largest finite binary64 value
  is rounded as if the exponent range had no upper end, and no bar carries a NaN. The sign
  of zero is not kept (nothing in the program divides or prints it apart from reports).
\<close>

type_synonym double = rat

definition pow2 :: "int \<Rightarrow> rat" where
  "pow2 e = (if 0 \<le> e then 2 ^ nat e else 1 / 2 ^ nat (- e))"

text \<open>
  \<open>ilog2 x\<close> is the binary exponent \<open>e\<close> of \<open>x \<noteq> 0\<close>, the one with
  \<open>pow2 e \<le> \<bar>x\<bar> < pow2 (e + 1)\<close>, read off the bit lengths of numerator and denominator.
\<close>

definition ilog2 :: "rat \<Rightarrow> int" where
  "ilog2 x =
     (let (a, b) = quotient_of \<bar>x\<bar>; d = bitlen a - bitlen b
      in if pow2 d \<le> \<bar>x\<bar> then d else d - 1)"

definition round_half_even :: "rat \<Rightarrow> int" where
  "round_half_even x =
     (let f = \<lfloor>x\<rfloor>; d = x - of_int f
      in if d < 1 / 2 then f
         else if 1 / 2 < d then f + 1
         else if even f then f else f + 1)"

text \<open>The exponent of the last place of the binary64 values around \<open>x\<close>.\<close>

definition quantum :: "rat \<Rightarrow> int" where
  "quantum x = max (ilog2 x - 52) (- 1074)"

definition rnd :: "rat \<Rightarrow> double" where
  "rnd x =
     (if x = 0 then 0
      else of_int (round_half_even (x / pow2 (quantum x))) * pow2 (quantum x))"

definition fadd :: "double \<Rightarrow> double \<Rightarrow> double" where
  "fadd x y = rnd (x + y)"

definition fsub :: "double \<Rightarrow> double \<Rightarrow> double" where
  "fsub x y = rnd (x - y)"

definition fmul :: "double \<Rightarrow> double \<Rightarrow> double" where
  "fmul x y = rnd (x * y)"

text \<open>A rational is a binary64 value when rounding leaves it as it is.\<close>

definition is_double :: "rat \<Rightarrow> bool" where
  "is_double x \<longleftrightarrow> rnd x = x"

subsection \<open>int\<close>

text \<open>
  The C++ \<^verbatim>\<open>int\<close> values (lookback, offset, indices, the \<^verbatim>\<open>-1\<close> of a failed scan) are
  \<^typ>\<open>int\<close>. The one sum the source forms, \<^verbatim>\<open>bars_back + start_bar\<close> (again as
  \<^verbatim>\<open>start + count\<close>), is the mathematical sum: where it would leave the range of a C++
  \<^verbatim>\<open>int\<close> the source has undefined behaviour and the model returns an error result, so
  every error-free result of the model is one of a defined run of the source.
  \<^verbatim>\<open>static_cast<int>(bars.size())\<close> is \<open>int (length bars)\<close>.
\<close>

section \<open>Data model\<close>

text \<open>
  Modelled from the spec: \<^verbatim>\<open>bar.h\<close> of the broker's API is not among the sources; the spec
  gives a bar a time label, open, high, low, close and volume. The program reads
  \<^verbatim>\<open>time\<close>, \<^verbatim>\<open>high\<close>, \<^verbatim>\<open>low\<close> and \<^verbatim>\<open>close\<close> only.
\<close>

record Bar =
  time :: string
  high :: double
  low :: double
  open_price :: double
  close :: double
  volume :: double

text \<open>\<^verbatim>\<open>struct FibonacciResults\<close> and its default constructor (AutoFibIndicator.h).\<close>

record FibonacciResults =
  timestamp :: string
  trend :: string
  high_value :: double
  low_value :: double
  high_time :: string
  low_time :: string
  high_bar_index :: int
  low_bar_index :: int
  fibo_range :: double
  fibo_levels :: "string \<rightharpoonup> double"
  golden_zone_low :: double
  golden_zone_high :: double
  current_price :: double
  price_in_golden_zone :: bool
  error :: string

definition FibonacciResults_init :: FibonacciResults where
  "FibonacciResults_init =
     \<lparr>timestamp = '''', trend = '''', high_value = 0, low_value = 0,
      high_time = '''', low_time = '''', high_bar_index = 0, low_bar_index = 0,
      fibo_range = 0, fibo_levels = Map.empty, golden_zone_low = 0,
      golden_zone_high = 0, current_price = 0, price_in_golden_zone = False,
      error = ''''\<rparr>"

text \<open>\<^verbatim>\<open>class AutoFibIndicator\<close>: configuration, cache and the last results.\<close>

record AutoFibIndicator =
  bars_back :: int
  start_bar :: int
  fibo_level_values :: "string \<rightharpoonup> double"
  last_lowest_bar :: int
  last_highest_bar :: int
  last_high_value :: double
  last_low_value :: double
  last_is_bullish :: bool
  results :: FibonacciResults

definition default_levels :: "string \<rightharpoonup> double" where
  "default_levels =
     [''level_0'' \<mapsto> rnd 0.000, ''level_1'' \<mapsto> rnd 0.236, ''level_2'' \<mapsto> rnd 0.382,
      ''level_3'' \<mapsto> rnd 0.500, ''level_4'' \<mapsto> rnd 0.618, ''level_5'' \<mapsto> rnd 0.764,
      ''level_6'' \<mapsto> rnd 0.886, ''level_7'' \<mapsto> rnd 1.000, ''level_8'' \<mapsto> rnd 1.618,
      ''level_9'' \<mapsto> rnd 2.618]"

text \<open>The constructor \<^verbatim>\<open>AutoFibIndicator(int barsBack = 20, int startBar = 0)\<close>.\<close>

definition AutoFibIndicator_init :: "int \<Rightarrow> int \<Rightarrow> AutoFibIndicator" where
  "AutoFibIndicator_init barsBack startBar =
     \<lparr>bars_back = barsBack, start_bar = startBar, fibo_level_values = default_levels,
      last_lowest_bar = - 1, last_highest_bar = - 1, last_high_value = 0,
      last_low_value = 0, last_is_bullish = True, results = FibonacciResults_init\<rparr>"

definition setFibonacciLevels ::
  "AutoFibIndicator \<Rightarrow> (string \<rightharpoonup> double) \<Rightarrow> AutoFibIndicator" where
  "setFibonacciLevels ind levels = ind\<lparr>fibo_level_values := levels\<rparr>"

section \<open>The Fibonacci engine (AutoFibIndicator.cpp)\<close>

text \<open>
  \<^verbatim>\<open>getCurrentTimestamp\<close> formats the wall clock. The clock is the environment's: the model
  takes what the clock reads at the call, already formatted, as the argument \<open>now\<close>.
\<close>

definition getCurrentTimestamp :: "string \<Rightarrow> string" where
  "getCurrentTimestamp now = now"

text \<open>
  The scan loops: \<^verbatim>\<open>for (int i = start; i < start + count; ++i)\<close> over the pair
  (index of the extreme, value of the extreme).
\<close>

function lowest_loop :: "Bar list \<Rightarrow> int \<Rightarrow> int \<Rightarrow> int \<times> double \<Rightarrow> int \<times> double" where
  "lowest_loop bars i stop (lowest_idx, lowest_value) =
     (if i < stop then
        (if low (bars ! nat i) < lowest_value
         then lowest_loop bars (i + 1) stop (i, low (bars ! nat i))
         else lowest_loop bars (i + 1) stop (lowest_idx, lowest_value))
      else (lowest_idx, lowest_value))"
  by pat_completeness auto
termination
  by (relation "measure (\<lambda>(bars, i, stop, acc). nat (stop - i))") auto

function highest_loop :: "Bar list \<Rightarrow> int \<Rightarrow> int \<Rightarrow> int \<times> double \<Rightarrow> int \<times> double" where
  "highest_loop bars i stop (highest_idx, highest_value) =
     (if i < stop then
        (if highest_value < high (bars ! nat i)
         then highest_loop bars (i + 1) stop (i, high (bars ! nat i))
         else highest_loop bars (i + 1) stop (highest_idx, highest_value))
      else (highest_idx, highest_value))"
  by pat_completeness auto
termination
  by (relation "measure (\<lambda>(bars, i, stop, acc). nat (stop - i))") auto

declare lowest_loop.simps [simp del] highest_loop.simps [simp del]

definition findLowestBar :: "Bar list \<Rightarrow> int \<Rightarrow> int \<Rightarrow> int" where
  "findLowestBar bars start count =
     (if start < 0 \<or> count \<le> 0 \<or> int (length bars) < start + count then - 1
      else fst (lowest_loop bars start (start + count) (start, low (bars ! nat start))))"

definition findHighestBar :: "Bar list \<Rightarrow> int \<Rightarrow> int \<Rightarrow> int" where
  "findHighestBar bars start count =
     (if start < 0 \<or> count \<le> 0 \<or> int (length bars) < start + count then - 1
      else fst (highest_loop bars start (start + count) (start, high (bars ! nat start))))"

text \<open>
  \<^verbatim>\<open>operator[]\<close> of \<^verbatim>\<open>std::map<std::string, double>\<close>: reading a name that is not in
  the map inserts it with the value \<^verbatim>\<open>0.0\<close>.
\<close>

definition map_subscript ::
  "(string \<rightharpoonup> double) \<Rightarrow> string \<Rightarrow> double \<times> (string \<rightharpoonup> double)" where
  "map_subscript m k = (case m k of Some v \<Rightarrow> (v, m) | None \<Rightarrow> (0, m(k \<mapsto> 0)))"

text \<open>
  An early return of \<^verbatim>\<open>calculate\<close>: the freshly reset \<^verbatim>\<open>results\<close> with its error set,
  returned and kept in the indicator.
\<close>

definition fail :: "AutoFibIndicator \<Rightarrow> string \<Rightarrow> FibonacciResults \<times> AutoFibIndicator" where
  "fail ind msg =
     (let res = FibonacciResults_init\<lparr>error := msg\<rparr> in (res, ind\<lparr>results := res\<rparr>))"

text \<open>
  \<^verbatim>\<open>calculate\<close> returns the results and leaves the indicator changed: the member
  \<^verbatim>\<open>results\<close>, the cache, and the level map where \<^verbatim>\<open>operator[]\<close> has inserted a name.
  The level prices are computed from the level map as it is before the golden zone reads
  it. \<^verbatim>\<open>high_time > low_time\<close> compares two \<^verbatim>\<open>std::string\<close>s: lexicographically, by
  character code.
\<close>

definition calculate ::
  "AutoFibIndicator \<Rightarrow> Bar list \<Rightarrow> string \<Rightarrow> FibonacciResults \<times> AutoFibIndicator" where
  "calculate ind bars now =
     (if int (length bars) < bars_back ind + start_bar ind then fail ind ''Not enough bars''
      else
        let lowest_idx = findLowestBar bars (start_bar ind) (bars_back ind);
            highest_idx = findHighestBar bars (start_bar ind) (bars_back ind)
        in
        if lowest_idx < 0 \<or> highest_idx < 0 then fail ind ''Could not find highest/lowest bar''
        else
          let high_val = high (bars ! nat highest_idx);
              low_val = low (bars ! nat lowest_idx)
          in
          if high_val \<le> 0 \<or> low_val \<le> 0 \<or> high_val \<le> low_val then fail ind ''Invalid price data''
          else
            let high_t = time (bars ! nat highest_idx);
                low_t = time (bars ! nat lowest_idx);
                is_bullish = (low_t < high_t);
                range = fsub high_val low_val;
                fibo_prices =
                  (\<lambda>name. case fibo_level_values ind name of
                     None \<Rightarrow> None
                   | Some ratio \<Rightarrow>
                       Some (if is_bullish then fadd low_val (fmul range ratio)
                             else fsub high_val (fmul range ratio)));
                (zone_low, zone_high, levels) =
                  (if is_bullish then
                     let (r2, m2) = map_subscript (fibo_level_values ind) ''level_2'';
                         (r4, m4) = map_subscript m2 ''level_4''
                     in (fadd low_val (fmul range r2), fadd low_val (fmul range r4), m4)
                   else
                     let (r4, m4) = map_subscript (fibo_level_values ind) ''level_4'';
                         (r2, m2) = map_subscript m4 ''level_2''
                     in (fsub high_val (fmul range r4), fsub high_val (fmul range r2), m2));
                price = close (last bars);
                res =
                  \<lparr>timestamp = getCurrentTimestamp now,
                   trend = (if is_bullish then ''BULLISH'' else ''BEARISH''),
                   high_value = high_val, low_value = low_val,
                   high_time = high_t, low_time = low_t,
                   high_bar_index = highest_idx, low_bar_index = lowest_idx,
                   fibo_range = range, fibo_levels = fibo_prices,
                   golden_zone_low = zone_low, golden_zone_high = zone_high,
                   current_price = price,
                   price_in_golden_zone = (zone_low \<le> price \<and> price \<le> zone_high),
                   error = ''''\<rparr>
            in (res,
                ind\<lparr>fibo_level_values := levels,
                    last_lowest_bar := lowest_idx, last_highest_bar := highest_idx,
                    last_high_value := high_val, last_low_value := low_val,
                    last_is_bullish := is_bullish, results := res\<rparr>))"

definition getSignal :: "AutoFibIndicator \<Rightarrow> string" where
  "getSignal ind =
     (if error (results ind) \<noteq> '''' then ''NO_DATA''
      else if price_in_golden_zone (results ind) then
        (if trend (results ind) = ''BULLISH'' then ''BUY'' else ''SELL'')
      else ''HOLD'')"

section \<open>The acquisition of bars (IBKRAutoFibClient.cpp)\<close>

text \<open>
  The client's fields that the acquisition reads or writes. \<open>connected\<close> stands for
  \<^verbatim>\<open>client_socket->isConnected()\<close>; the socket, the reader and the signal are the
  broker library's.
\<close>

record IBKRAutoFibClient =
  connected :: bool
  historical_data :: "Bar list"
  data_ready :: bool
  data_end_received :: bool
  next_order_id :: int
  indicator :: AutoFibIndicator

text \<open>The constructor: both flags false, a 20 bar lookback; not yet connected.\<close>

definition IBKRAutoFibClient_init :: IBKRAutoFibClient where
  "IBKRAutoFibClient_init =
     \<lparr>connected = False, historical_data = [], data_ready = False,
      data_end_received = False, next_order_id = 0,
      indicator = AutoFibIndicator_init 20 0\<rparr>"

text \<open>The two callbacks of the producer, each run under \<^verbatim>\<open>data_mutex\<close>.\<close>

definition historicalData :: "IBKRAutoFibClient \<Rightarrow> Bar \<Rightarrow> IBKRAutoFibClient" where
  "historicalData c bar = c\<lparr>historical_data := historical_data c @ [bar]\<rparr>"

definition historicalDataEnd :: "IBKRAutoFibClient \<Rightarrow> IBKRAutoFibClient" where
  "historicalDataEnd c = c\<lparr>data_end_received := True, data_ready := True\<rparr>"

datatype callback = HistoricalData Bar | HistoricalDataEnd

fun deliver :: "IBKRAutoFibClient \<Rightarrow> callback \<Rightarrow> IBKRAutoFibClient" where
  "deliver c (HistoricalData bar) = historicalData c bar"
| "deliver c HistoricalDataEnd = historicalDataEnd c"

text \<open>
  \<^verbatim>\<open>requestHistoricalData\<close>: refused when not connected; otherwise the buffer and both
  flags are reset before the request goes out.
\<close>

definition requestHistoricalData :: "IBKRAutoFibClient \<Rightarrow> bool \<times> IBKRAutoFibClient" where
  "requestHistoricalData c =
     (if \<not> connected c then (False, c)
      else (True, c\<lparr>historical_data := [], data_ready := False, data_end_received := False\<rparr>))"

text \<open>
  \<^verbatim>\<open>data_cv.wait_for(lock, 30 s, pred)\<close> with \<^verbatim>\<open>pred\<close> reading \<^verbatim>\<open>data_end_received\<close>.
  The list holds the callbacks that other threads run, in order, before the 30 seconds
  are over. The wait returns as soon as the flag is set, and at the deadline it returns
  what the flag then is; the mutex is held again on return.
\<close>

fun wait_for :: "IBKRAutoFibClient \<Rightarrow> callback list \<Rightarrow> bool \<times> IBKRAutoFibClient" where
  "wait_for c [] = (data_end_received c, c)"
| "wait_for c (e # es) =
     (if data_end_received c then (True, c) else wait_for (deliver c e) es)"

definition getHistoricalData ::
  "IBKRAutoFibClient \<Rightarrow> callback list \<Rightarrow> Bar list \<times> IBKRAutoFibClient" where
  "getHistoricalData c during_wait =
     (let (signalled, c') = wait_for c during_wait
      in if \<not> signalled then ([], c') else (historical_data c', c'))"

text \<open>
  The loop of \<^verbatim>\<open>runIndicator\<close> that processes messages: each round runs one batch of
  callbacks (\<^verbatim>\<open>reader->processMsgs()\<close>) on the calling thread; it ends when the flag is set
  or when 30 seconds are over. The list holds the batches of the rounds that start before
  the 30 seconds are over.
\<close>

fun process_loop :: "IBKRAutoFibClient \<Rightarrow> callback list list \<Rightarrow> IBKRAutoFibClient" where
  "process_loop c [] = c"
| "process_loop c (batch # batches) =
     (if data_end_received c then c else process_loop (foldl deliver c batch) batches)"

definition runIndicator ::
  "IBKRAutoFibClient \<Rightarrow> callback list list \<Rightarrow> callback list \<Rightarrow> string
     \<Rightarrow> FibonacciResults \<times> IBKRAutoFibClient" where
  "runIndicator c batches during_wait now =
     (let (requested, c1) = requestHistoricalData c
      in if \<not> requested then
           (FibonacciResults_init\<lparr>error := ''Failed to request historical data''\<rparr>, c1)
         else
           let c2 = process_loop c1 batches;
               (bars, c3) = getHistoricalData c2 during_wait
           in if bars = [] then (FibonacciResults_init\<lparr>error := ''No data received''\<rparr>, c3)
              else
                let (res, ind) = calculate (indicator c3) bars now
                in (res, c3\<lparr>indicator := ind\<rparr>))"

text \<open>The bars that a run of callbacks pushes, in order.\<close>

fun pushed :: "callback list \<Rightarrow> Bar list" where
  "pushed [] = []"
| "pushed (HistoricalData b # es) = b # pushed es"
| "pushed (HistoricalDataEnd # es) = pushed es"

section \<open>Concrete windows\<close>

definition bar :: "string \<Rightarrow> double \<Rightarrow> double \<Rightarrow> double \<Rightarrow> Bar" where
  "bar t h l c = \<lparr>time = t, high = h, low = l, open_price = c, close = c, volume = 0\<rparr>"

text \<open>Scenario A of the spec: lows 10, 8, 9, 11, 12 and highs 15, 14, 16, 13, 17.\<close>

definition scenario_A :: "Bar list" where
  "scenario_A =
     [bar ''20240102 09:30:00'' 15 10 12,
      bar ''20240102 09:35:00'' 14 8 13,
      bar ''20240102 09:40:00'' 16 9 11,
      bar ''20240102 09:45:00'' 13 11 12,
      bar ''20240102 09:50:00'' 17 12 13]"

text \<open>A window with ties: bars 1 and 2 share the lowest low, bars 0 and 3 the highest high.\<close>

definition tied_window :: "Bar list" where
  "tied_window =
     [bar ''20240102 09:30:00'' 17 9 12,
      bar ''20240102 09:35:00'' 15 8 13,
      bar ''20240102 09:40:00'' 16 8 11,
      bar ''20240102 09:45:00'' 17 10 16]"

text \<open>
  Two bars, rising: low 8 in the first, high 16 in the second, so the range is 8 and every
  product with a ratio that is a multiple of 1/8 is exact. The last close is the argument.
\<close>

definition two_bars :: "double \<Rightarrow> Bar list" where
  "two_bars c =
     [bar ''20240102 09:30:00'' 12 8 10,
      bar ''20240102 09:35:00'' 16 10 c]"

text \<open>Level maps a caller may install: the golden zone's two ratios, in order and swapped.\<close>

definition quarter_levels :: "string \<rightharpoonup> double" where
  "quarter_levels = [''level_2'' \<mapsto> 1 / 4, ''level_4'' \<mapsto> 3 / 4]"

definition swapped_levels :: "string \<rightharpoonup> double" where
  "swapped_levels = [''level_2'' \<mapsto> 3 / 4, ''level_4'' \<mapsto> 1 / 4]"

text \<open>
  Two bars with decimal prices, each the binary64 value nearest to the decimal one:
  low 0.2 in the first, high 0.9 in the second.
\<close>

definition decimal_bars :: "Bar list" where
  "decimal_bars =
     [bar ''20240102 09:30:00'' (rnd 0.5) (rnd 0.2) (rnd 0.4),
      bar ''20240102 09:35:00'' (rnd 0.9) (rnd 0.6) (rnd 0.8)]"

text \<open>
  Two bars with whole prices at the 53rd power of two, where neighbouring binary64 values
  are 1 apart below and 2 apart above: low 9007199254740991, high 9007199254740994.
\<close>

definition narrow_bars :: "Bar list" where
  "narrow_bars =
     [bar ''20240102 09:30:00'' 9007199254740992 9007199254740991 9007199254740992,
      bar ''20240102 09:35:00'' 9007199254740994 9007199254740992 9007199254740992]"

text \<open>A client that is connected, and one bar the producer may deliver.\<close>

definition connected_client :: IBKRAutoFibClient where
  "connected_client = IBKRAutoFibClient_init\<lparr>connected := True\<rparr>"

definition one_bar :: Bar where
  "one_bar = bar ''20240102 09:30:00'' 12 8 10"

section \<open>The scans\<close>

lemma lowest_loop_scan:
  assumes "start \<le> i" "i \<le> stop" "start \<le> idx" "idx < stop" "v = low (bars ! nat idx)"
    "\<forall>j. start \<le> j \<and> j < i \<longrightarrow> v \<le> low (bars ! nat j)"
    "\<forall>j. start \<le> j \<and> j < idx \<longrightarrow> v < low (bars ! nat j)"
  shows "start \<le> fst (lowest_loop bars i stop (idx, v)) \<and> fst (lowest_loop bars i stop (idx, v)) < stop \<and>
     (\<forall>j. start \<le> j \<and> j < stop \<longrightarrow>
        low (bars ! nat (fst (lowest_loop bars i stop (idx, v)))) \<le> low (bars ! nat j)) \<and>
     (\<forall>j. start \<le> j \<and> j < fst (lowest_loop bars i stop (idx, v)) \<longrightarrow>
        low (bars ! nat (fst (lowest_loop bars i stop (idx, v)))) < low (bars ! nat j))"
  using assms
proof (induction bars i stop "(idx, v)" arbitrary: idx v rule: lowest_loop.induct)
  case (1 bars i stop idx v)
  show ?case
  proof (cases "i < stop")
    case False
    then have stopped: "lowest_loop bars i stop (idx, v) = (idx, v)"
      by (simp add: lowest_loop.simps [of bars i])
    from False "1.prems" have "i = stop" by simp
    with "1.prems" show ?thesis unfolding stopped by simp
  next
    case True
    show ?thesis
    proof (cases "low (bars ! nat i) < v")
      case better: True
      have step: "lowest_loop bars i stop (idx, v) = lowest_loop bars (i + 1) stop (i, low (bars ! nat i))"
        using True better by (simp add: lowest_loop.simps [of bars i])
      have below: "\<forall>j. start \<le> j \<and> j < i + 1 \<longrightarrow> low (bars ! nat i) \<le> low (bars ! nat j)"
      proof (intro allI impI)
        fix j assume j: "start \<le> j \<and> j < i + 1"
        show "low (bars ! nat i) \<le> low (bars ! nat j)"
        proof (cases "j = i")
          case True then show ?thesis by simp
        next
          case False
          with j have "j < i" by simp
          with j "1.prems"(6) have "v \<le> low (bars ! nat j)" by blast
          with better show ?thesis by simp
        qed
      qed
      have strict: "\<forall>j. start \<le> j \<and> j < i \<longrightarrow> low (bars ! nat i) < low (bars ! nat j)"
      proof (intro allI impI)
        fix j assume j: "start \<le> j \<and> j < i"
        with "1.prems"(6) have "v \<le> low (bars ! nat j)" by blast
        with better show "low (bars ! nat i) < low (bars ! nat j)" by simp
      qed
      show ?thesis unfolding step
        by (rule "1.hyps"(1) [OF True better]) (use "1.prems" True below strict in simp_all)
    next
      case worse: False
      have step: "lowest_loop bars i stop (idx, v) = lowest_loop bars (i + 1) stop (idx, v)"
        using True worse by (simp add: lowest_loop.simps [of bars i])
      have below: "\<forall>j. start \<le> j \<and> j < i + 1 \<longrightarrow> v \<le> low (bars ! nat j)"
      proof (intro allI impI)
        fix j assume j: "start \<le> j \<and> j < i + 1"
        show "v \<le> low (bars ! nat j)"
        proof (cases "j = i")
          case True with worse show ?thesis by simp
        next
          case False
          with j have "j < i" by simp
          with j "1.prems"(6) show ?thesis by blast
        qed
      qed
      show ?thesis unfolding step
        by (rule "1.hyps"(2) [OF True worse]) (use "1.prems" True below in simp_all)
    qed
  qed
qed

lemma findLowestBar_scan:
  assumes "0 \<le> start" "1 \<le> count" "start + count \<le> int (length bars)"
  shows "start \<le> findLowestBar bars start count"
    and "findLowestBar bars start count < start + count"
    and "\<forall>j. start \<le> j \<and> j < start + count \<longrightarrow>
           low (bars ! nat (findLowestBar bars start count)) \<le> low (bars ! nat j)"
    and "\<forall>j. start \<le> j \<and> j < findLowestBar bars start count \<longrightarrow>
           low (bars ! nat (findLowestBar bars start count)) < low (bars ! nat j)"
proof -
  have eq: "findLowestBar bars start count =
      fst (lowest_loop bars start (start + count) (start, low (bars ! nat start)))"
    using assms by (simp add: findLowestBar_def)
  have inv: "start \<le> fst (lowest_loop bars start (start + count) (start, low (bars ! nat start))) \<and>
     fst (lowest_loop bars start (start + count) (start, low (bars ! nat start))) < start + count \<and>
     (\<forall>j. start \<le> j \<and> j < start + count \<longrightarrow>
        low (bars ! nat (fst (lowest_loop bars start (start + count) (start, low (bars ! nat start))))) \<le> low (bars ! nat j)) \<and>
     (\<forall>j. start \<le> j \<and> j < fst (lowest_loop bars start (start + count) (start, low (bars ! nat start))) \<longrightarrow>
        low (bars ! nat (fst (lowest_loop bars start (start + count) (start, low (bars ! nat start))))) < low (bars ! nat j))"
    by (rule lowest_loop_scan) (use assms in simp_all)
  show "start \<le> findLowestBar bars start count"
    and "findLowestBar bars start count < start + count"
    and "\<forall>j. start \<le> j \<and> j < start + count \<longrightarrow>
           low (bars ! nat (findLowestBar bars start count)) \<le> low (bars ! nat j)"
    and "\<forall>j. start \<le> j \<and> j < findLowestBar bars start count \<longrightarrow>
           low (bars ! nat (findLowestBar bars start count)) < low (bars ! nat j)"
    unfolding eq using inv by blast+
qed

lemma highest_loop_scan:
  assumes "start \<le> i" "i \<le> stop" "start \<le> idx" "idx < stop" "v = high (bars ! nat idx)"
    "\<forall>j. start \<le> j \<and> j < i \<longrightarrow> high (bars ! nat j) \<le> v"
    "\<forall>j. start \<le> j \<and> j < idx \<longrightarrow> high (bars ! nat j) < v"
  shows "start \<le> fst (highest_loop bars i stop (idx, v)) \<and> fst (highest_loop bars i stop (idx, v)) < stop \<and>
     (\<forall>j. start \<le> j \<and> j < stop \<longrightarrow>
        high (bars ! nat j) \<le> high (bars ! nat (fst (highest_loop bars i stop (idx, v))))) \<and>
     (\<forall>j. start \<le> j \<and> j < fst (highest_loop bars i stop (idx, v)) \<longrightarrow>
        high (bars ! nat j) < high (bars ! nat (fst (highest_loop bars i stop (idx, v)))))"
  using assms
proof (induction bars i stop "(idx, v)" arbitrary: idx v rule: highest_loop.induct)
  case (1 bars i stop idx v)
  show ?case
  proof (cases "i < stop")
    case False
    then have stopped: "highest_loop bars i stop (idx, v) = (idx, v)"
      by (simp add: highest_loop.simps [of bars i])
    from False "1.prems" have "i = stop" by simp
    with "1.prems" show ?thesis unfolding stopped by simp
  next
    case True
    show ?thesis
    proof (cases "v < high (bars ! nat i)")
      case better: True
      have step: "highest_loop bars i stop (idx, v) = highest_loop bars (i + 1) stop (i, high (bars ! nat i))"
        using True better by (simp add: highest_loop.simps [of bars i])
      have below: "\<forall>j. start \<le> j \<and> j < i + 1 \<longrightarrow> high (bars ! nat j) \<le> high (bars ! nat i)"
      proof (intro allI impI)
        fix j assume j: "start \<le> j \<and> j < i + 1"
        show "high (bars ! nat j) \<le> high (bars ! nat i)"
        proof (cases "j = i")
          case True then show ?thesis by simp
        next
          case False
          with j have "j < i" by simp
          with j "1.prems"(6) have "high (bars ! nat j) \<le> v" by blast
          with better show ?thesis by simp
        qed
      qed
      have strict: "\<forall>j. start \<le> j \<and> j < i \<longrightarrow> high (bars ! nat j) < high (bars ! nat i)"
      proof (intro allI impI)
        fix j assume j: "start \<le> j \<and> j < i"
        with "1.prems"(6) have "high (bars ! nat j) \<le> v" by blast
        with better show "high (bars ! nat j) < high (bars ! nat i)" by simp
      qed
      show ?thesis unfolding step
        by (rule "1.hyps"(1) [OF True better]) (use "1.prems" True below strict in simp_all)
    next
      case worse: False
      have step: "highest_loop bars i stop (idx, v) = highest_loop bars (i + 1) stop (idx, v)"
        using True worse by (simp add: highest_loop.simps [of bars i])
      have below: "\<forall>j. start \<le> j \<and> j < i + 1 \<longrightarrow> high (bars ! nat j) \<le> v"
      proof (intro allI impI)
        fix j assume j: "start \<le> j \<and> j < i + 1"
        show "high (bars ! nat j) \<le> v"
        proof (cases "j = i")
          case True with worse show ?thesis by simp
        next
          case False
          with j have "j < i" by simp
          with j "1.prems"(6) show ?thesis by blast
        qed
      qed
      show ?thesis unfolding step
        by (rule "1.hyps"(2) [OF True worse]) (use "1.prems" True below in simp_all)
    qed
  qed
qed

lemma findHighestBar_scan:
  assumes "0 \<le> start" "1 \<le> count" "start + count \<le> int (length bars)"
  shows "start \<le> findHighestBar bars start count"
    and "findHighestBar bars start count < start + count"
    and "\<forall>j. start \<le> j \<and> j < start + count \<longrightarrow>
           high (bars ! nat j) \<le> high (bars ! nat (findHighestBar bars start count))"
    and "\<forall>j. start \<le> j \<and> j < findHighestBar bars start count \<longrightarrow>
           high (bars ! nat j) < high (bars ! nat (findHighestBar bars start count))"
proof -
  have eq: "findHighestBar bars start count =
      fst (highest_loop bars start (start + count) (start, high (bars ! nat start)))"
    using assms by (simp add: findHighestBar_def)
  have inv: "start \<le> fst (highest_loop bars start (start + count) (start, high (bars ! nat start))) \<and>
     fst (highest_loop bars start (start + count) (start, high (bars ! nat start))) < start + count \<and>
     (\<forall>j. start \<le> j \<and> j < start + count \<longrightarrow>
        high (bars ! nat j) \<le> high (bars ! nat (fst (highest_loop bars start (start + count) (start, high (bars ! nat start)))))) \<and>
     (\<forall>j. start \<le> j \<and> j < fst (highest_loop bars start (start + count) (start, high (bars ! nat start))) \<longrightarrow>
        high (bars ! nat j) < high (bars ! nat (fst (highest_loop bars start (start + count) (start, high (bars ! nat start))))))"
    by (rule highest_loop_scan) (use assms in simp_all)
  show "start \<le> findHighestBar bars start count"
    and "findHighestBar bars start count < start + count"
    and "\<forall>j. start \<le> j \<and> j < start + count \<longrightarrow>
           high (bars ! nat j) \<le> high (bars ! nat (findHighestBar bars start count))"
    and "\<forall>j. start \<le> j \<and> j < findHighestBar bars start count \<longrightarrow>
           high (bars ! nat j) < high (bars ! nat (findHighestBar bars start count))"
    unfolding eq using inv by blast+
qed

lemma calculate_error_cases:
  "error (fst (calculate ind bars now)) \<in>
     {'''', ''Not enough bars'', ''Could not find highest/lowest bar'', ''Invalid price data''}"
  by (simp add: calculate_def fail_def Let_def FibonacciResults_init_def split: prod.splits)

lemma calculate_success_iff:
  "error (fst (calculate ind bars now)) = '''' \<longleftrightarrow>
     \<not> int (length bars) < bars_back ind + start_bar ind \<and>
     0 \<le> findLowestBar bars (start_bar ind) (bars_back ind) \<and>
     0 \<le> findHighestBar bars (start_bar ind) (bars_back ind) \<and>
     0 < high (bars ! nat (findHighestBar bars (start_bar ind) (bars_back ind))) \<and>
     0 < low (bars ! nat (findLowestBar bars (start_bar ind) (bars_back ind))) \<and>
     low (bars ! nat (findLowestBar bars (start_bar ind) (bars_back ind)))
       < high (bars ! nat (findHighestBar bars (start_bar ind) (bars_back ind)))"
  by (auto simp add: calculate_def fail_def Let_def FibonacciResults_init_def split: prod.splits)

lemma calculate_extreme_found:
  assumes "0 \<le> start_bar ind" "1 \<le> bars_back ind"
  shows "error (fst (calculate ind bars now)) \<noteq> ''Could not find highest/lowest bar''"
proof (cases "int (length bars) < bars_back ind + start_bar ind")
  case True
  then show ?thesis by (simp add: calculate_def fail_def Let_def)
next
  case False
  then have len: "start_bar ind + bars_back ind \<le> int (length bars)" by simp
  have "0 \<le> findLowestBar bars (start_bar ind) (bars_back ind)"
    using findLowestBar_scan(1)[OF assms len] assms(1) by simp
  moreover have "0 \<le> findHighestBar bars (start_bar ind) (bars_back ind)"
    using findHighestBar_scan(1)[OF assms len] assms(1) by simp
  ultimately show ?thesis
    using False by (simp add: calculate_def fail_def Let_def split: prod.splits)
qed

section \<open>Claims about the engine\<close>

text \<open>
  C5. Where \<open>0 \<le> startBar\<close>, \<open>1 \<le> barsBack\<close> and the bars number at least
  \<open>startBar + barsBack\<close>: \<open>findLowestBar\<close> returns an index of the window at which the
  low is least, and every earlier index of the window has a strictly greater low (the
  first of the minimal ones); \<open>findHighestBar\<close> returns the first index of the window at
  which the high is greatest. Neither returns \<open>-1\<close>, and an indicator with this lookback
  and offset never reports \<open>Could not find highest/lowest bar\<close> on these bars.
\<close>

theorem find_extremes_first_optimum:
  assumes "0 \<le> startBar" and "1 \<le> barsBack" and "startBar + barsBack \<le> int (length bars)"
  shows "startBar \<le> findLowestBar bars startBar barsBack \<and>
         findLowestBar bars startBar barsBack < startBar + barsBack \<and>
         (\<forall>j. startBar \<le> j \<and> j < startBar + barsBack \<longrightarrow>
            low (bars ! nat (findLowestBar bars startBar barsBack)) \<le> low (bars ! nat j)) \<and>
         (\<forall>j. startBar \<le> j \<and> j < findLowestBar bars startBar barsBack \<longrightarrow>
            low (bars ! nat (findLowestBar bars startBar barsBack)) < low (bars ! nat j)) \<and>
         startBar \<le> findHighestBar bars startBar barsBack \<and>
         findHighestBar bars startBar barsBack < startBar + barsBack \<and>
         (\<forall>j. startBar \<le> j \<and> j < startBar + barsBack \<longrightarrow>
            high (bars ! nat j) \<le> high (bars ! nat (findHighestBar bars startBar barsBack))) \<and>
         (\<forall>j. startBar \<le> j \<and> j < findHighestBar bars startBar barsBack \<longrightarrow>
            high (bars ! nat j) < high (bars ! nat (findHighestBar bars startBar barsBack))) \<and>
         findLowestBar bars startBar barsBack \<noteq> - 1 \<and>
         findHighestBar bars startBar barsBack \<noteq> - 1 \<and>
         (\<forall>ind now. bars_back ind = barsBack \<and> start_bar ind = startBar \<longrightarrow>
            error (fst (calculate ind bars now)) \<noteq> ''Could not find highest/lowest bar'')"
proof -
  note lo = findLowestBar_scan [OF assms]
  note hi = findHighestBar_scan [OF assms]
  have "findLowestBar bars startBar barsBack \<noteq> - 1"
    and "findHighestBar bars startBar barsBack \<noteq> - 1"
    using lo(1) hi(1) assms(1) by simp_all
  moreover have "\<forall>ind now. bars_back ind = barsBack \<and> start_bar ind = startBar \<longrightarrow>
      error (fst (calculate ind bars now)) \<noteq> ''Could not find highest/lowest bar''"
    using calculate_extreme_found assms(1,2) by blast
  ultimately show ?thesis
    using lo hi by blast
qed

theorem find_extremes_first_optimum_witness:
  "findLowestBar tied_window 0 4 = 1 \<and>
   findHighestBar tied_window 0 4 = 0 \<and>
   low (tied_window ! nat 1) = low (tied_window ! nat 2) \<and>
   low (tied_window ! nat 1) < low (tied_window ! nat 0) \<and>
   high (tied_window ! nat 3) = high (tied_window ! nat 0) \<and>
   high (tied_window ! nat 3) \<le> high (tied_window ! nat (findHighestBar tied_window 0 4)) \<and>
   low (tied_window ! nat (findLowestBar tied_window 0 4)) \<le> low (tied_window ! nat 2) \<and>
   error (fst (calculate (AutoFibIndicator_init 4 0) tied_window ''2024-01-02T10:00:00''))
     \<noteq> ''Could not find highest/lowest bar''"
proof -
  have h: "(0::int) \<le> 0" "(1::int) \<le> 4" "0 + 4 \<le> int (length tied_window)"
    by (simp_all add: tied_window_def)
  note spec = find_extremes_first_optimum [OF h]
  from spec have highest:
    "\<forall>j. 0 \<le> j \<and> j < 0 + 4 \<longrightarrow>
       high (tied_window ! nat j) \<le> high (tied_window ! nat (findHighestBar tied_window 0 4))"
    by blast
  from spec have lowest:
    "\<forall>j. 0 \<le> j \<and> j < 0 + 4 \<longrightarrow>
       low (tied_window ! nat (findLowestBar tied_window 0 4)) \<le> low (tied_window ! nat j)"
    by blast
  from spec have found:
    "\<forall>ind now. bars_back ind = 4 \<and> start_bar ind = 0 \<longrightarrow>
       error (fst (calculate ind tied_window now)) \<noteq> ''Could not find highest/lowest bar''"
    by blast
  have cfg: "bars_back (AutoFibIndicator_init 4 0) = 4 \<and> start_bar (AutoFibIndicator_init 4 0) = 0"
    by (simp add: AutoFibIndicator_init_def)
  have lo: "findLowestBar tied_window 0 4 = 1" by code_simp
  have hi: "findHighestBar tied_window 0 4 = 0" by code_simp
  have vals: "low (tied_window ! nat 1) = low (tied_window ! nat 2)"
    "low (tied_window ! nat 1) < low (tied_window ! nat 0)"
    "high (tied_window ! nat 3) = high (tied_window ! nat 0)"
    by (simp_all add: tied_window_def bar_def)
  have "high (tied_window ! nat 3) \<le> high (tied_window ! nat (findHighestBar tied_window 0 4))"
    using highest [rule_format, of 3] by simp
  moreover have "low (tied_window ! nat (findLowestBar tied_window 0 4)) \<le> low (tied_window ! nat 2)"
    using lowest [rule_format, of 2] by simp
  moreover have "error (fst (calculate (AutoFibIndicator_init 4 0) tied_window ''2024-01-02T10:00:00''))
     \<noteq> ''Could not find highest/lowest bar''"
    using found cfg by blast
  ultimately show ?thesis
    using lo hi vals by blast
qed

lemma calculate_success_fields:
  assumes "error (fst (calculate ind bars now)) = ''''"
  shows "timestamp (fst (calculate ind bars now)) = now"
    and "trend (fst (calculate ind bars now)) =
          (if time (bars ! nat (findLowestBar bars (start_bar ind) (bars_back ind)))
                < time (bars ! nat (findHighestBar bars (start_bar ind) (bars_back ind)))
           then ''BULLISH'' else ''BEARISH'')"
    and "high_value (fst (calculate ind bars now)) =
          high (bars ! nat (findHighestBar bars (start_bar ind) (bars_back ind)))"
    and "low_value (fst (calculate ind bars now)) =
          low (bars ! nat (findLowestBar bars (start_bar ind) (bars_back ind)))"
    and "high_time (fst (calculate ind bars now)) =
          time (bars ! nat (findHighestBar bars (start_bar ind) (bars_back ind)))"
    and "low_time (fst (calculate ind bars now)) =
          time (bars ! nat (findLowestBar bars (start_bar ind) (bars_back ind)))"
    and "high_bar_index (fst (calculate ind bars now)) =
          findHighestBar bars (start_bar ind) (bars_back ind)"
    and "low_bar_index (fst (calculate ind bars now)) =
          findLowestBar bars (start_bar ind) (bars_back ind)"
    and "fibo_range (fst (calculate ind bars now)) =
          fsub (high (bars ! nat (findHighestBar bars (start_bar ind) (bars_back ind))))
               (low (bars ! nat (findLowestBar bars (start_bar ind) (bars_back ind))))"
    and "current_price (fst (calculate ind bars now)) = close (last bars)"
    and "price_in_golden_zone (fst (calculate ind bars now)) \<longleftrightarrow>
          golden_zone_low (fst (calculate ind bars now)) \<le> current_price (fst (calculate ind bars now)) \<and>
          current_price (fst (calculate ind bars now)) \<le> golden_zone_high (fst (calculate ind bars now))"
    and "results (snd (calculate ind bars now)) = fst (calculate ind bars now)"
  using assms [unfolded calculate_success_iff]
  by (simp_all add: calculate_def Let_def getCurrentTimestamp_def split: prod.splits)

lemma calculate_success_zone:
  assumes "error (fst (calculate ind bars now)) = ''''"
  shows "golden_zone_low (fst (calculate ind bars now)) =
          (if time (bars ! nat (findLowestBar bars (start_bar ind) (bars_back ind)))
                < time (bars ! nat (findHighestBar bars (start_bar ind) (bars_back ind)))
           then fadd (low_value (fst (calculate ind bars now)))
                  (fmul (fibo_range (fst (calculate ind bars now)))
                     (fst (map_subscript (fibo_level_values ind) ''level_2'')))
           else fsub (high_value (fst (calculate ind bars now)))
                  (fmul (fibo_range (fst (calculate ind bars now)))
                     (fst (map_subscript (fibo_level_values ind) ''level_4''))))"
    and "golden_zone_high (fst (calculate ind bars now)) =
          (if time (bars ! nat (findLowestBar bars (start_bar ind) (bars_back ind)))
                < time (bars ! nat (findHighestBar bars (start_bar ind) (bars_back ind)))
           then fadd (low_value (fst (calculate ind bars now)))
                  (fmul (fibo_range (fst (calculate ind bars now)))
                     (fst (map_subscript (fibo_level_values ind) ''level_4'')))
           else fsub (high_value (fst (calculate ind bars now)))
                  (fmul (fibo_range (fst (calculate ind bars now)))
                     (fst (map_subscript (fibo_level_values ind) ''level_2''))))"
    and "fibo_levels (fst (calculate ind bars now)) name =
          (case fibo_level_values ind name of
             None \<Rightarrow> None
           | Some ratio \<Rightarrow>
               Some (if time (bars ! nat (findLowestBar bars (start_bar ind) (bars_back ind)))
                         < time (bars ! nat (findHighestBar bars (start_bar ind) (bars_back ind)))
                     then fadd (low_value (fst (calculate ind bars now)))
                            (fmul (fibo_range (fst (calculate ind bars now))) ratio)
                     else fsub (high_value (fst (calculate ind bars now)))
                            (fmul (fibo_range (fst (calculate ind bars now))) ratio)))"
    and "fibo_level_values (snd (calculate ind bars now)) =
          snd (map_subscript (snd (map_subscript (fibo_level_values ind) ''level_2'')) ''level_4'')"
  using assms [unfolded calculate_success_iff]
  by (auto simp add: calculate_def Let_def map_subscript_def split: prod.splits option.splits)

lemma calculate_failure:
  assumes "error (fst (calculate ind bars now)) \<noteq> ''''"
  shows "fst (calculate ind bars now) =
           FibonacciResults_init\<lparr>error := error (fst (calculate ind bars now))\<rparr>"
    and "snd (calculate ind bars now) = ind\<lparr>results := fst (calculate ind bars now)\<rparr>"
  using assms [unfolded calculate_success_iff]
  by (auto simp add: calculate_def Let_def fail_def FibonacciResults_init_def split: prod.splits)

section \<open>The concrete windows, evaluated\<close>

lemma AutoFibIndicator_init_config:
  "bars_back (AutoFibIndicator_init barsBack startBar) = barsBack"
  "start_bar (AutoFibIndicator_init barsBack startBar) = startBar"
  "fibo_level_values (AutoFibIndicator_init barsBack startBar) = default_levels"
  by (simp_all add: AutoFibIndicator_init_def)

lemma setFibonacciLevels_config:
  "bars_back (setFibonacciLevels ind levels) = bars_back ind"
  "start_bar (setFibonacciLevels ind levels) = start_bar ind"
  "fibo_level_values (setFibonacciLevels ind levels) = levels"
  by (simp_all add: setFibonacciLevels_def)

lemma scenario_A_extremes:
  "findLowestBar scenario_A 0 5 = 1" "findHighestBar scenario_A 0 5 = 4"
  by code_simp+

lemma scenario_A_bars:
  "scenario_A ! Suc 0 = bar ''20240102 09:35:00'' 14 8 13"
  "scenario_A ! 4 = bar ''20240102 09:50:00'' 17 12 13"
  "last scenario_A = bar ''20240102 09:50:00'' 17 12 13"
  "int (length scenario_A) = 5"
  by (simp_all add: scenario_A_def)

lemma scenario_A_ok:
  "error (fst (calculate (AutoFibIndicator_init 5 0) scenario_A now)) = ''''"
  by (simp add: calculate_success_iff AutoFibIndicator_init_config scenario_A_extremes
      scenario_A_bars bar_def)

lemma tied_window_extremes:
  "findLowestBar tied_window 0 4 = 1" "findHighestBar tied_window 0 4 = 0"
  by code_simp+

lemma tied_window_bars:
  "tied_window ! Suc 0 = bar ''20240102 09:35:00'' 15 8 13"
  "tied_window ! 0 = bar ''20240102 09:30:00'' 17 9 12"
  "last tied_window = bar ''20240102 09:45:00'' 17 10 16"
  "int (length tied_window) = 4"
  by (simp_all add: tied_window_def)

lemma tied_window_ok:
  "error (fst (calculate (AutoFibIndicator_init 4 0) tied_window now)) = ''''"
  by (simp add: calculate_success_iff AutoFibIndicator_init_config tied_window_extremes
      tied_window_bars bar_def)

lemma two_bars_extremes:
  "findLowestBar (two_bars c) 0 2 = 0" "findHighestBar (two_bars c) 0 2 = 1"
  by (simp_all add: findLowestBar_def findHighestBar_def two_bars_def bar_def
      lowest_loop.simps [of _ 0] lowest_loop.simps [of _ 1] lowest_loop.simps [of _ 2]
      highest_loop.simps [of _ 0] highest_loop.simps [of _ 1] highest_loop.simps [of _ 2])

lemma two_bars_bars:
  "two_bars c ! 0 = bar ''20240102 09:30:00'' 12 8 10"
  "two_bars c ! Suc 0 = bar ''20240102 09:35:00'' 16 10 c"
  "last (two_bars c) = bar ''20240102 09:35:00'' 16 10 c"
  "int (length (two_bars c)) = 2"
  by (simp_all add: two_bars_def)

lemma two_bars_ok:
  "error (fst (calculate (setFibonacciLevels (AutoFibIndicator_init 2 0) levels) (two_bars c) now)) = ''''"
  by (simp add: calculate_success_iff AutoFibIndicator_init_config setFibonacciLevels_config
      two_bars_extremes two_bars_bars bar_def)

lemma time_label_order:
  "''20240102 09:35:00'' < ''20240102 09:50:00''"
  "''20240102 09:30:00'' < ''20240102 09:35:00''"
  by code_simp+

lemma findLowestBar_nonneg_iff:
  "0 \<le> findLowestBar bars start count \<longleftrightarrow>
     0 \<le> start \<and> 1 \<le> count \<and> start + count \<le> int (length bars)"
proof (cases "0 \<le> start \<and> 1 \<le> count \<and> start + count \<le> int (length bars)")
  case True
  then show ?thesis using findLowestBar_scan(1) [of start count bars] by simp
next
  case False
  then have "findLowestBar bars start count = - 1"
    by (auto simp add: findLowestBar_def)
  with False show ?thesis by simp
qed

lemma calculate_success_window:
  assumes "error (fst (calculate ind bars now)) = ''''"
  shows "0 \<le> start_bar ind" "1 \<le> bars_back ind"
    "start_bar ind + bars_back ind \<le> int (length bars)" "bars \<noteq> []"
proof -
  from assms have "0 \<le> findLowestBar bars (start_bar ind) (bars_back ind)"
    by (simp add: calculate_success_iff)
  then show "0 \<le> start_bar ind" "1 \<le> bars_back ind"
    "start_bar ind + bars_back ind \<le> int (length bars)"
    by (simp_all add: findLowestBar_nonneg_iff)
  then show "bars \<noteq> []" by auto
qed

text \<open>
  C7. In an error-free result the trend is \<open>BULLISH\<close> exactly when the time label of the
  low bar is strictly less than the time label of the high bar in the order of
  \<^verbatim>\<open>std::string\<close> (lexicographic, by character code), and \<open>BEARISH\<close> otherwise, so also
  when the two labels are equal. The two labels are those of the bars that the scans
  found.
\<close>

theorem trend_by_time_labels:
  assumes "error (fst (calculate ind bars now)) = ''''"
  shows "(trend (fst (calculate ind bars now)) = ''BULLISH'' \<longleftrightarrow>
            low_time (fst (calculate ind bars now)) < high_time (fst (calculate ind bars now))) \<and>
         (trend (fst (calculate ind bars now)) = ''BEARISH'' \<longleftrightarrow>
            high_time (fst (calculate ind bars now)) \<le> low_time (fst (calculate ind bars now))) \<and>
         high_time (fst (calculate ind bars now)) =
            time (bars ! nat (findHighestBar bars (start_bar ind) (bars_back ind))) \<and>
         low_time (fst (calculate ind bars now)) =
            time (bars ! nat (findLowestBar bars (start_bar ind) (bars_back ind)))"
  by (auto simp add: calculate_success_fields [OF assms] not_le)

theorem trend_by_time_labels_witness:
  "error (fst (calculate (AutoFibIndicator_init 5 0) scenario_A ''2024-01-02T10:00:00'')) = '''' \<and>
   low_time (fst (calculate (AutoFibIndicator_init 5 0) scenario_A ''2024-01-02T10:00:00''))
     = ''20240102 09:35:00'' \<and>
   high_time (fst (calculate (AutoFibIndicator_init 5 0) scenario_A ''2024-01-02T10:00:00''))
     = ''20240102 09:50:00'' \<and>
   trend (fst (calculate (AutoFibIndicator_init 5 0) scenario_A ''2024-01-02T10:00:00''))
     = ''BULLISH'' \<and>
   error (fst (calculate (AutoFibIndicator_init 4 0) tied_window ''2024-01-02T10:00:00'')) = '''' \<and>
   low_time (fst (calculate (AutoFibIndicator_init 4 0) tied_window ''2024-01-02T10:00:00''))
     = ''20240102 09:35:00'' \<and>
   high_time (fst (calculate (AutoFibIndicator_init 4 0) tied_window ''2024-01-02T10:00:00''))
     = ''20240102 09:30:00'' \<and>
   trend (fst (calculate (AutoFibIndicator_init 4 0) tied_window ''2024-01-02T10:00:00''))
     = ''BEARISH''"
proof -
  note spec_A = trend_by_time_labels [OF scenario_A_ok, of "''2024-01-02T10:00:00''"]
  note spec_T = trend_by_time_labels [OF tied_window_ok, of "''2024-01-02T10:00:00''"]
  have times_A:
    "low_time (fst (calculate (AutoFibIndicator_init 5 0) scenario_A ''2024-01-02T10:00:00''))
       = ''20240102 09:35:00''"
    "high_time (fst (calculate (AutoFibIndicator_init 5 0) scenario_A ''2024-01-02T10:00:00''))
       = ''20240102 09:50:00''"
    using spec_A
    by (simp_all add: AutoFibIndicator_init_config scenario_A_extremes scenario_A_bars bar_def)
  have times_T:
    "low_time (fst (calculate (AutoFibIndicator_init 4 0) tied_window ''2024-01-02T10:00:00''))
       = ''20240102 09:35:00''"
    "high_time (fst (calculate (AutoFibIndicator_init 4 0) tied_window ''2024-01-02T10:00:00''))
       = ''20240102 09:30:00''"
    using spec_T
    by (simp_all add: AutoFibIndicator_init_config tied_window_extremes tied_window_bars bar_def)
  have "trend (fst (calculate (AutoFibIndicator_init 5 0) scenario_A ''2024-01-02T10:00:00''))
     = ''BULLISH''"
    using spec_A time_label_order(1) by (simp only: times_A)
  moreover have "trend (fst (calculate (AutoFibIndicator_init 4 0) tied_window ''2024-01-02T10:00:00''))
     = ''BEARISH''"
    using spec_T time_label_order(2) by (simp only: times_T less_imp_le)
  ultimately show ?thesis
    using scenario_A_ok tied_window_ok times_A times_T by blast
qed

text \<open>
  C8. After any call of \<open>calculate\<close>, on the indicator as the call leaves it:
  \<open>getSignal\<close> is \<open>BUY\<close> exactly when the trend is \<open>BULLISH\<close> and the price is in the golden
  zone, \<open>SELL\<close> exactly when the trend is \<open>BEARISH\<close> and the price is in the golden zone,
  \<open>HOLD\<close> exactly when no error is set and the price is not in the golden zone, and
  \<open>NO_DATA\<close> exactly when the error is set. The results it reads are the returned ones.
\<close>

theorem getSignal_table:
  "results (snd (calculate ind bars now)) = fst (calculate ind bars now) \<and>
   (getSignal (snd (calculate ind bars now)) = ''BUY'' \<longleftrightarrow>
      trend (fst (calculate ind bars now)) = ''BULLISH'' \<and>
      price_in_golden_zone (fst (calculate ind bars now))) \<and>
   (getSignal (snd (calculate ind bars now)) = ''SELL'' \<longleftrightarrow>
      trend (fst (calculate ind bars now)) = ''BEARISH'' \<and>
      price_in_golden_zone (fst (calculate ind bars now))) \<and>
   (getSignal (snd (calculate ind bars now)) = ''HOLD'' \<longleftrightarrow>
      \<not> price_in_golden_zone (fst (calculate ind bars now)) \<and>
      error (fst (calculate ind bars now)) = '''') \<and>
   (getSignal (snd (calculate ind bars now)) = ''NO_DATA'' \<longleftrightarrow>
      error (fst (calculate ind bars now)) \<noteq> '''')"
proof (cases "error (fst (calculate ind bars now)) = ''''")
  case True
  show ?thesis
    by (simp add: getSignal_def calculate_success_fields(2,12) [OF True] True)
next
  case False
  have "trend (fst (calculate ind bars now)) = ''''"
    and "\<not> price_in_golden_zone (fst (calculate ind bars now))"
    by (subst calculate_failure(1) [OF False], simp add: FibonacciResults_init_def)+
  then show ?thesis
    using False by (simp add: getSignal_def calculate_failure(2) [OF False])
qed

theorem getSignal_table_witness:
  "getSignal (snd (calculate (AutoFibIndicator_init 5 0) scenario_A ''2024-01-02T10:00:00'')) = ''BUY'' \<and>
   trend (fst (calculate (AutoFibIndicator_init 5 0) scenario_A ''2024-01-02T10:00:00'')) = ''BULLISH'' \<and>
   price_in_golden_zone (fst (calculate (AutoFibIndicator_init 5 0) scenario_A ''2024-01-02T10:00:00'')) \<and>
   getSignal (snd (calculate (AutoFibIndicator_init 20 0) scenario_A ''2024-01-02T10:00:00'')) = ''NO_DATA'' \<and>
   error (fst (calculate (AutoFibIndicator_init 20 0) scenario_A ''2024-01-02T10:00:00'')) = ''Not enough bars''"
proof -
  have "trend (fst (calculate (AutoFibIndicator_init 5 0) scenario_A ''2024-01-02T10:00:00'')) = ''BULLISH''"
    by (simp add: calculate_success_fields(2) [OF scenario_A_ok] AutoFibIndicator_init_config
        scenario_A_extremes scenario_A_bars bar_def time_label_order)
  moreover have "price_in_golden_zone (fst (calculate (AutoFibIndicator_init 5 0) scenario_A ''2024-01-02T10:00:00''))"
    by code_simp
  moreover have "error (fst (calculate (AutoFibIndicator_init 20 0) scenario_A ''2024-01-02T10:00:00'')) = ''Not enough bars''"
    by (simp add: calculate_def fail_def Let_def AutoFibIndicator_init_config scenario_A_bars)
  ultimately show ?thesis
    using getSignal_table [of "AutoFibIndicator_init 5 0" scenario_A "''2024-01-02T10:00:00''"]
      getSignal_table [of "AutoFibIndicator_init 20 0" scenario_A "''2024-01-02T10:00:00''"]
    by simp
qed

lemma rnd_small:
  "rnd 0 = 0" "rnd 2 = 2" "rnd 4 = 4" "rnd 6 = 6" "rnd 8 = 8" "rnd 10 = 10" "rnd 14 = 14"
  by code_simp+

lemma two_bars_zone:
  "golden_zone_low (fst (calculate (setFibonacciLevels (AutoFibIndicator_init 2 0) levels)
      (two_bars c) now)) = fadd 8 (fmul 8 (fst (map_subscript levels ''level_2'')))"
  "golden_zone_high (fst (calculate (setFibonacciLevels (AutoFibIndicator_init 2 0) levels)
      (two_bars c) now)) = fadd 8 (fmul 8 (fst (map_subscript levels ''level_4'')))"
  "current_price (fst (calculate (setFibonacciLevels (AutoFibIndicator_init 2 0) levels)
      (two_bars c) now)) = c"
  by (simp_all add: calculate_success_zone [OF two_bars_ok] calculate_success_fields [OF two_bars_ok]
      AutoFibIndicator_init_config setFibonacciLevels_config two_bars_extremes two_bars_bars
      bar_def time_label_order fsub_def rnd_small)

text \<open>
  C9, as the claim states it, fails: with the two golden-zone ratios installed the other
  way round (\<open>level_2\<close> at 3/4, \<open>level_4\<close> at 1/4) the zone runs from 14 down to 10, and a
  last close of exactly 14, the value of \<open>golden_zone_low\<close>, is not in the golden zone.
\<close>

theorem price_on_zone_low_counterexample:
  "error (fst (calculate (setFibonacciLevels (AutoFibIndicator_init 2 0) swapped_levels)
      (two_bars 14) ''2024-01-02T10:00:00'')) = '''' \<and>
   golden_zone_low (fst (calculate (setFibonacciLevels (AutoFibIndicator_init 2 0) swapped_levels)
      (two_bars 14) ''2024-01-02T10:00:00'')) = 14 \<and>
   golden_zone_high (fst (calculate (setFibonacciLevels (AutoFibIndicator_init 2 0) swapped_levels)
      (two_bars 14) ''2024-01-02T10:00:00'')) = 10 \<and>
   current_price (fst (calculate (setFibonacciLevels (AutoFibIndicator_init 2 0) swapped_levels)
      (two_bars 14) ''2024-01-02T10:00:00'')) = 14 \<and>
   \<not> price_in_golden_zone (fst (calculate (setFibonacciLevels (AutoFibIndicator_init 2 0)
      swapped_levels) (two_bars 14) ''2024-01-02T10:00:00''))"
  by (simp add: two_bars_ok two_bars_zone calculate_success_fields(11) [OF two_bars_ok]
      swapped_levels_def map_subscript_def fadd_def fmul_def rnd_small)

text \<open>
  C9, amended. In an error-free result the bars are not empty, \<open>current_price\<close> is the
  close of the last bar supplied, and \<open>price_in_golden_zone\<close> holds exactly when
  \<open>golden_zone_low \<le> current_price \<le> golden_zone_high\<close>, both ends included. A current
  price equal to \<open>golden_zone_low\<close> is in the golden zone whenever
  \<open>golden_zone_low \<le> golden_zone_high\<close>.
\<close>

theorem price_in_golden_zone_inclusive:
  assumes "error (fst (calculate ind bars now)) = ''''"
  shows "bars \<noteq> [] \<and>
         current_price (fst (calculate ind bars now)) = close (last bars) \<and>
         (price_in_golden_zone (fst (calculate ind bars now)) \<longleftrightarrow>
            golden_zone_low (fst (calculate ind bars now)) \<le> current_price (fst (calculate ind bars now)) \<and>
            current_price (fst (calculate ind bars now)) \<le> golden_zone_high (fst (calculate ind bars now))) \<and>
         (current_price (fst (calculate ind bars now)) = golden_zone_low (fst (calculate ind bars now)) \<and>
          golden_zone_low (fst (calculate ind bars now)) \<le> golden_zone_high (fst (calculate ind bars now))
            \<longrightarrow> price_in_golden_zone (fst (calculate ind bars now)))"
  using calculate_success_window(4) [OF assms] calculate_success_fields(10,11) [OF assms]
  by simp

theorem price_in_golden_zone_inclusive_witness:
  "error (fst (calculate (setFibonacciLevels (AutoFibIndicator_init 2 0) quarter_levels)
      (two_bars 10) ''2024-01-02T10:00:00'')) = '''' \<and>
   golden_zone_low (fst (calculate (setFibonacciLevels (AutoFibIndicator_init 2 0) quarter_levels)
      (two_bars 10) ''2024-01-02T10:00:00'')) = 10 \<and>
   golden_zone_high (fst (calculate (setFibonacciLevels (AutoFibIndicator_init 2 0) quarter_levels)
      (two_bars 10) ''2024-01-02T10:00:00'')) = 14 \<and>
   current_price (fst (calculate (setFibonacciLevels (AutoFibIndicator_init 2 0) quarter_levels)
      (two_bars 10) ''2024-01-02T10:00:00'')) = close (last (two_bars 10)) \<and>
   close (last (two_bars 10)) = 10 \<and>
   price_in_golden_zone (fst (calculate (setFibonacciLevels (AutoFibIndicator_init 2 0)
      quarter_levels) (two_bars 10) ''2024-01-02T10:00:00''))"
proof -
  have zone:
    "golden_zone_low (fst (calculate (setFibonacciLevels (AutoFibIndicator_init 2 0) quarter_levels)
       (two_bars 10) ''2024-01-02T10:00:00'')) = 10"
    "golden_zone_high (fst (calculate (setFibonacciLevels (AutoFibIndicator_init 2 0) quarter_levels)
       (two_bars 10) ''2024-01-02T10:00:00'')) = 14"
    by (simp_all add: two_bars_zone quarter_levels_def map_subscript_def fadd_def fmul_def rnd_small)
  have price: "close (last (two_bars 10)) = 10"
    by (simp add: two_bars_bars bar_def)
  from price_in_golden_zone_inclusive
    [OF two_bars_ok [of quarter_levels 10 "''2024-01-02T10:00:00''"]]
  show ?thesis
    using zone price two_bars_ok by simp
qed

lemma calculate_reads_configuration:
  assumes "bars_back other = bars_back ind" "start_bar other = start_bar ind"
    "fibo_level_values other = fibo_level_values ind"
  shows "fst (calculate other bars now) = fst (calculate ind bars now)"
  using assms
  by (simp add: calculate_def fail_def Let_def split: prod.splits)

lemma calculate_keeps_window:
  "bars_back (snd (calculate ind bars now)) = bars_back ind"
  "start_bar (snd (calculate ind bars now)) = start_bar ind"
  by (simp_all add: calculate_def fail_def Let_def split: prod.splits)

lemma calculate_keeps_named_levels:
  assumes "fibo_level_values ind ''level_2'' \<noteq> None" "fibo_level_values ind ''level_4'' \<noteq> None"
  shows "fibo_level_values (snd (calculate ind bars now)) = fibo_level_values ind"
proof (cases "error (fst (calculate ind bars now)) = ''''")
  case True
  from assms show ?thesis
    by (auto simp add: calculate_success_zone(4) [OF True] map_subscript_def)
next
  case False
  show ?thesis
    by (subst calculate_failure(2) [OF False]) simp
qed

lemma calculate_clock:
  "fst (calculate ind bars t2) =
     (fst (calculate ind bars t1))\<lparr>timestamp := timestamp (fst (calculate ind bars t2))\<rparr>"
  by (simp add: calculate_def fail_def Let_def split: prod.splits)

text \<open>
  C3, as the claim states it, fails: the timestamp of a result is what the clock reads
  during the call, so two consecutive calls on Scenario A, one second apart, return
  results that differ.
\<close>

theorem calculate_twice_counterexample:
  "timestamp (fst (calculate (AutoFibIndicator_init 5 0) scenario_A ''2024-01-02T10:00:00''))
     = ''2024-01-02T10:00:00'' \<and>
   timestamp (fst (calculate
       (snd (calculate (AutoFibIndicator_init 5 0) scenario_A ''2024-01-02T10:00:00''))
       scenario_A ''2024-01-02T10:00:01''))
     = ''2024-01-02T10:00:01'' \<and>
   fst (calculate
       (snd (calculate (AutoFibIndicator_init 5 0) scenario_A ''2024-01-02T10:00:00''))
       scenario_A ''2024-01-02T10:00:01'')
     \<noteq> fst (calculate (AutoFibIndicator_init 5 0) scenario_A ''2024-01-02T10:00:00'')"
proof -
  have second_ok: "error (fst (calculate
       (snd (calculate (AutoFibIndicator_init 5 0) scenario_A ''2024-01-02T10:00:00''))
       scenario_A ''2024-01-02T10:00:01'')) = ''''"
    by (simp add: calculate_success_iff calculate_keeps_window AutoFibIndicator_init_config
        scenario_A_extremes scenario_A_bars bar_def)
  have first: "timestamp (fst (calculate (AutoFibIndicator_init 5 0) scenario_A ''2024-01-02T10:00:00''))
     = ''2024-01-02T10:00:00''"
    by (rule calculate_success_fields(1) [OF scenario_A_ok])
  have second: "timestamp (fst (calculate
       (snd (calculate (AutoFibIndicator_init 5 0) scenario_A ''2024-01-02T10:00:00''))
       scenario_A ''2024-01-02T10:00:01''))
     = ''2024-01-02T10:00:01''"
    by (rule calculate_success_fields(1) [OF second_ok])
  have "timestamp (fst (calculate
       (snd (calculate (AutoFibIndicator_init 5 0) scenario_A ''2024-01-02T10:00:00''))
       scenario_A ''2024-01-02T10:00:01''))
     \<noteq> timestamp (fst (calculate (AutoFibIndicator_init 5 0) scenario_A ''2024-01-02T10:00:00''))"
    by (simp only: first second) simp
  then have "fst (calculate
       (snd (calculate (AutoFibIndicator_init 5 0) scenario_A ''2024-01-02T10:00:00''))
       scenario_A ''2024-01-02T10:00:01'')
     \<noteq> fst (calculate (AutoFibIndicator_init 5 0) scenario_A ''2024-01-02T10:00:00'')"
    by auto
  with first second show ?thesis by blast
qed

lemma calculate_error_clock:
  "error (fst (calculate ind bars t2)) = error (fst (calculate ind bars t1))"
  by (subst calculate_clock [of ind bars t2 t1]) simp

lemma calculate_timestamp:
  "timestamp (fst (calculate ind bars t)) =
     (if error (fst (calculate ind bars t1)) = '''' then t else '''')"
proof (cases "error (fst (calculate ind bars t)) = ''''")
  case True
  then show ?thesis
    using calculate_success_fields(1) [OF True] calculate_error_clock [of ind bars t1 t] by simp
next
  case False
  have "timestamp (fst (calculate ind bars t)) = ''''"
    by (subst calculate_failure(1) [OF False]) (simp add: FibonacciResults_init_def)
  then show ?thesis
    using False calculate_error_clock [of ind bars t1 t] by simp
qed

text \<open>
  C3, amended. Where the level map names both \<open>level_2\<close> and \<open>level_4\<close> (the default map
  does), two consecutive calls of \<open>calculate\<close> on the same bars return results that agree
  in every field but the timestamp, which is the clock's reading during each call (and is
  empty in an error result); when the clock reads the same, the two results are equal.
  No call's result depends on the cache or on the results kept from an earlier call: it
  is determined by lookback, offset, level map, bars and clock.
\<close>

theorem calculate_repeatable_up_to_timestamp:
  assumes "fibo_level_values ind ''level_2'' \<noteq> None"
    and "fibo_level_values ind ''level_4'' \<noteq> None"
  shows "fst (calculate (snd (calculate ind bars t1)) bars t2) =
           (fst (calculate ind bars t1))
             \<lparr>timestamp := timestamp (fst (calculate (snd (calculate ind bars t1)) bars t2))\<rparr> \<and>
         timestamp (fst (calculate (snd (calculate ind bars t1)) bars t2)) =
           (if error (fst (calculate ind bars t1)) = '''' then t2 else '''') \<and>
         timestamp (fst (calculate ind bars t1)) =
           (if error (fst (calculate ind bars t1)) = '''' then t1 else '''') \<and>
         (t1 = t2 \<longrightarrow>
            fst (calculate (snd (calculate ind bars t1)) bars t2) = fst (calculate ind bars t1)) \<and>
         (\<forall>other. bars_back other = bars_back ind \<and> start_bar other = start_bar ind \<and>
            fibo_level_values other = fibo_level_values ind \<longrightarrow>
            fst (calculate other bars t1) = fst (calculate ind bars t1))"
proof (intro conjI)
  have same: "fst (calculate (snd (calculate ind bars t1)) bars t) = fst (calculate ind bars t)" for t
    by (rule calculate_reads_configuration)
      (simp_all add: calculate_keeps_window calculate_keeps_named_levels [OF assms])
  show "fst (calculate (snd (calculate ind bars t1)) bars t2) =
      (fst (calculate ind bars t1))
        \<lparr>timestamp := timestamp (fst (calculate (snd (calculate ind bars t1)) bars t2))\<rparr>"
    unfolding same by (rule calculate_clock)
  show "timestamp (fst (calculate (snd (calculate ind bars t1)) bars t2)) =
      (if error (fst (calculate ind bars t1)) = '''' then t2 else '''')"
    unfolding same by (rule calculate_timestamp)
  show "timestamp (fst (calculate ind bars t1)) =
      (if error (fst (calculate ind bars t1)) = '''' then t1 else '''')"
    by (rule calculate_timestamp)
  show "t1 = t2 \<longrightarrow>
      fst (calculate (snd (calculate ind bars t1)) bars t2) = fst (calculate ind bars t1)"
    using same by blast
  show "\<forall>other. bars_back other = bars_back ind \<and> start_bar other = start_bar ind \<and>
      fibo_level_values other = fibo_level_values ind \<longrightarrow>
      fst (calculate other bars t1) = fst (calculate ind bars t1)"
    using calculate_reads_configuration by blast
qed

theorem calculate_repeatable_up_to_timestamp_witness:
  "fibo_level_values (AutoFibIndicator_init 5 0) ''level_2'' \<noteq> None \<and>
   fibo_level_values (AutoFibIndicator_init 5 0) ''level_4'' \<noteq> None \<and>
   error (fst (calculate (AutoFibIndicator_init 5 0) scenario_A ''2024-01-02T10:00:00'')) = '''' \<and>
   timestamp (fst (calculate
       (snd (calculate (AutoFibIndicator_init 5 0) scenario_A ''2024-01-02T10:00:00''))
       scenario_A ''2024-01-02T10:00:01'')) = ''2024-01-02T10:00:01'' \<and>
   fst (calculate
       (snd (calculate (AutoFibIndicator_init 5 0) scenario_A ''2024-01-02T10:00:00''))
       scenario_A ''2024-01-02T10:00:01'') =
     (fst (calculate (AutoFibIndicator_init 5 0) scenario_A ''2024-01-02T10:00:00''))
       \<lparr>timestamp := ''2024-01-02T10:00:01''\<rparr> \<and>
   fst (calculate
       (snd (calculate (AutoFibIndicator_init 5 0) scenario_A ''2024-01-02T10:00:00''))
       scenario_A ''2024-01-02T10:00:00'') =
     fst (calculate (AutoFibIndicator_init 5 0) scenario_A ''2024-01-02T10:00:00'')"
proof -
  let ?r1 = "fst (calculate (AutoFibIndicator_init 5 0) scenario_A ''2024-01-02T10:00:00'')"
  let ?i1 = "snd (calculate (AutoFibIndicator_init 5 0) scenario_A ''2024-01-02T10:00:00'')"
  have named: "fibo_level_values (AutoFibIndicator_init 5 0) ''level_2'' \<noteq> None"
    "fibo_level_values (AutoFibIndicator_init 5 0) ''level_4'' \<noteq> None"
    unfolding AutoFibIndicator_init_config default_levels_def by simp_all
  have ok: "error ?r1 = ''''" by (rule scenario_A_ok)
  note later = calculate_repeatable_up_to_timestamp
    [OF named, of scenario_A "''2024-01-02T10:00:00''" "''2024-01-02T10:00:01''"]
  note again = calculate_repeatable_up_to_timestamp
    [OF named, of scenario_A "''2024-01-02T10:00:00''" "''2024-01-02T10:00:00''"]
  from later have "timestamp (fst (calculate ?i1 scenario_A ''2024-01-02T10:00:01'')) =
      (if error ?r1 = '''' then ''2024-01-02T10:00:01'' else '''')"
    by (rule conjunct1 [OF conjunct2])
  then have stamp: "timestamp (fst (calculate ?i1 scenario_A ''2024-01-02T10:00:01'')) =
      ''2024-01-02T10:00:01''"
    by (simp add: ok)
  from later have "fst (calculate ?i1 scenario_A ''2024-01-02T10:00:01'') =
      ?r1\<lparr>timestamp := timestamp (fst (calculate ?i1 scenario_A ''2024-01-02T10:00:01''))\<rparr>"
    by (rule conjunct1)
  then have upd: "fst (calculate ?i1 scenario_A ''2024-01-02T10:00:01'') =
      ?r1\<lparr>timestamp := ''2024-01-02T10:00:01''\<rparr>"
    by (simp only: stamp)
  from again have "''2024-01-02T10:00:00'' = ''2024-01-02T10:00:00'' \<longrightarrow>
      fst (calculate ?i1 scenario_A ''2024-01-02T10:00:00'') = ?r1"
    by (rule conjunct1 [OF conjunct2 [OF conjunct2 [OF conjunct2]]])
  then have eq: "fst (calculate ?i1 scenario_A ''2024-01-02T10:00:00'') = ?r1"
    by blast
  from named ok stamp upd eq show ?thesis by blast
qed

text \<open>
  Beside C3: where the level map lacks \<open>level_2\<close> or \<open>level_4\<close>, the first error-free call
  inserts the missing name with ratio 0 (\<^verbatim>\<open>operator[]\<close>), after the level prices have been
  computed; the next call then returns a level price for it that the first did not.
\<close>

lemma calculate_inserts_missing_levels:
  "fibo_levels (fst (calculate (setFibonacciLevels (AutoFibIndicator_init 2 0) Map.empty)
      (two_bars 14) ''2024-01-02T10:00:00'')) ''level_2'' = None \<and>
   fibo_levels (fst (calculate
      (snd (calculate (setFibonacciLevels (AutoFibIndicator_init 2 0) Map.empty)
         (two_bars 14) ''2024-01-02T10:00:00''))
      (two_bars 14) ''2024-01-02T10:00:00'')) ''level_2'' = Some 8"
proof -
  have second_ok: "error (fst (calculate
      (snd (calculate (setFibonacciLevels (AutoFibIndicator_init 2 0) Map.empty)
         (two_bars 14) ''2024-01-02T10:00:00''))
      (two_bars 14) ''2024-01-02T10:00:00'')) = ''''"
    by (simp add: calculate_success_iff calculate_keeps_window AutoFibIndicator_init_config
        setFibonacciLevels_config two_bars_extremes two_bars_bars bar_def)
  show ?thesis
    by (simp add: calculate_success_zone(3,4) [OF two_bars_ok] calculate_success_zone(3) [OF second_ok]
        calculate_success_fields [OF two_bars_ok] calculate_success_fields [OF second_ok]
        calculate_keeps_window AutoFibIndicator_init_config setFibonacciLevels_config
        two_bars_extremes two_bars_bars bar_def time_label_order map_subscript_def
        fadd_def fsub_def fmul_def rnd_small)
qed

section \<open>Claims about the acquisition\<close>

lemma wait_for_signalled:
  "data_end_received c \<Longrightarrow> wait_for c evs = (True, c)"
  by (cases evs) simp_all

lemma wait_for_flag:
  "fst (wait_for c evs) = data_end_received (snd (wait_for c evs))"
  by (induction evs arbitrary: c) simp_all

lemma wait_for_timeout_buffer:
  "\<not> fst (wait_for c evs) \<Longrightarrow>
     historical_data (snd (wait_for c evs)) = historical_data c @ pushed evs"
proof (induction evs arbitrary: c)
  case Nil
  then show ?case by simp
next
  case (Cons e es)
  from Cons.prems have open_c: "\<not> data_end_received c"
    by (auto split: if_splits)
  show ?case
  proof (cases e)
    case (HistoricalData b)
    with Cons.prems open_c have "\<not> fst (wait_for (historicalData c b) es)" by simp
    from Cons.IH [OF this] HistoricalData open_c show ?thesis
      by (simp add: historicalData_def)
  next
    case HistoricalDataEnd
    have "wait_for (historicalDataEnd c) es = (True, historicalDataEnd c)"
      by (rule wait_for_signalled) (simp add: historicalDataEnd_def)
    with Cons.prems open_c HistoricalDataEnd show ?thesis by simp
  qed
qed

lemma process_loop_signalled:
  "data_end_received c \<Longrightarrow> process_loop c batches = c"
  by (cases batches) simp_all

lemma process_loop_idle:
  "process_loop c (replicate k [] @ batches) = process_loop c batches"
  by (induction k) (simp_all add: process_loop_signalled)

lemma requestHistoricalData_connected:
  "connected c \<Longrightarrow>
     requestHistoricalData c =
       (True, c\<lparr>historical_data := [], data_ready := False, data_end_received := False\<rparr>)"
  by (simp add: requestHistoricalData_def)

text \<open>
  C1, as the claim states it, fails. After a request, one bar arrives and no completion
  before the wait ends: the buffer holds the bar, yet \<open>getHistoricalData\<close> returns the empty
  sequence, not the buffer, and that is the very value it returns when the completion
  arrives with no bar at all.
\<close>

theorem getHistoricalData_timeout_counterexample:
  "\<not> fst (wait_for (snd (requestHistoricalData connected_client)) [HistoricalData one_bar]) \<and>
   historical_data
     (snd (getHistoricalData (snd (requestHistoricalData connected_client))
        [HistoricalData one_bar])) = [one_bar] \<and>
   fst (getHistoricalData (snd (requestHistoricalData connected_client))
     [HistoricalData one_bar]) = [] \<and>
   fst (getHistoricalData (snd (requestHistoricalData connected_client)) [HistoricalData one_bar])
     \<noteq> historical_data
         (snd (getHistoricalData (snd (requestHistoricalData connected_client))
            [HistoricalData one_bar])) \<and>
   fst (wait_for (snd (requestHistoricalData connected_client)) [HistoricalDataEnd]) \<and>
   fst (getHistoricalData (snd (requestHistoricalData connected_client)) [HistoricalDataEnd])
     = fst (getHistoricalData (snd (requestHistoricalData connected_client))
         [HistoricalData one_bar])"
  by (simp add: getHistoricalData_def requestHistoricalData_def connected_client_def
      IBKRAutoFibClient_init_def historicalData_def historicalDataEnd_def)

text \<open>
  C1, amended. Whenever the completion has not been signalled by the end of the wait,
  \<open>getHistoricalData\<close> returns the empty bar sequence and nothing else: no error value, and
  not the partial buffer, which stays in the client (the buffer before the wait followed by
  the bars pushed during it). \<open>runIndicator\<close>, when its wait ends so, returns the error
  \<open>No data received\<close>, as it does for a completed request without bars.
\<close>

theorem getHistoricalData_timeout:
  assumes "\<not> fst (wait_for c during_wait)"
  shows "fst (getHistoricalData c during_wait) = [] \<and>
         \<not> data_end_received (snd (getHistoricalData c during_wait)) \<and>
         historical_data (snd (getHistoricalData c during_wait)) =
           historical_data c @ pushed during_wait \<and>
         (\<forall>c0 batches now.
            connected c0 \<and> process_loop (snd (requestHistoricalData c0)) batches = c \<longrightarrow>
            error (fst (runIndicator c0 batches during_wait now)) = ''No data received'')"
proof -
  obtain c' where w: "wait_for c during_wait = (False, c')"
    using assms by (cases "wait_for c during_wait") simp
  have got: "getHistoricalData c during_wait = ([], c')"
    by (simp add: getHistoricalData_def w)
  have "\<not> data_end_received c'"
    using wait_for_flag [of c during_wait] by (simp add: w)
  moreover have "historical_data c' = historical_data c @ pushed during_wait"
    using wait_for_timeout_buffer [OF assms] by (simp add: w)
  moreover have "error (fst (runIndicator c0 batches during_wait now)) = ''No data received''"
    if run: "connected c0 \<and> process_loop (snd (requestHistoricalData c0)) batches = c"
    for c0 batches now
  proof -
    from run have req: "requestHistoricalData c0 =
        (True, c0\<lparr>historical_data := [], data_ready := False, data_end_received := False\<rparr>)"
      by (simp add: requestHistoricalData_connected)
    from run have loop: "process_loop
        (c0\<lparr>historical_data := [], data_ready := False, data_end_received := False\<rparr>) batches = c"
      by (simp add: req)
    show ?thesis
      by (simp add: runIndicator_def req loop got)
  qed
  ultimately show ?thesis
    by (simp add: got)
qed

theorem getHistoricalData_timeout_witness:
  "\<not> fst (wait_for (snd (requestHistoricalData connected_client)) [HistoricalData one_bar]) \<and>
   fst (getHistoricalData (snd (requestHistoricalData connected_client))
     [HistoricalData one_bar]) = [] \<and>
   historical_data
     (snd (getHistoricalData (snd (requestHistoricalData connected_client))
        [HistoricalData one_bar])) = [one_bar] \<and>
   error (fst (runIndicator connected_client [] [HistoricalData one_bar] ''2024-01-02T10:00:00''))
     = ''No data received''"
proof -
  have timeout:
    "\<not> fst (wait_for (snd (requestHistoricalData connected_client)) [HistoricalData one_bar])"
    by (simp add: requestHistoricalData_def connected_client_def IBKRAutoFibClient_init_def
        historicalData_def)
  have conn: "connected connected_client"
    by (simp add: connected_client_def)
  have start: "historical_data (snd (requestHistoricalData connected_client)) = []"
    by (simp add: requestHistoricalData_def connected_client_def)
  note spec = getHistoricalData_timeout [OF timeout]
  from spec have "error (fst (runIndicator connected_client [] [HistoricalData one_bar]
      ''2024-01-02T10:00:00'')) = ''No data received''"
    using conn by simp
  moreover from spec have "historical_data
     (snd (getHistoricalData (snd (requestHistoricalData connected_client))
        [HistoricalData one_bar])) = [one_bar]"
    by (simp add: start)
  moreover from spec have "fst (getHistoricalData (snd (requestHistoricalData connected_client))
     [HistoricalData one_bar]) = []"
    by blast
  ultimately show ?thesis
    using timeout by blast
qed

text \<open>
  C2, as the claim states it, fails. The producer pushes no bar and signals completion:
  the acquisition returns the empty sequence with the completion flag set, and
  \<open>runIndicator\<close> then reports \<open>No data received\<close>, which is not the engine's
  \<open>Not enough bars\<close>; the indicator is as it was, its results still error-free, so
  \<open>calculate\<close> has not run.
\<close>

theorem runIndicator_empty_completion_counterexample:
  "fst (wait_for (process_loop (snd (requestHistoricalData connected_client))
     [[HistoricalDataEnd]]) []) \<and>
   fst (getHistoricalData (process_loop (snd (requestHistoricalData connected_client))
     [[HistoricalDataEnd]]) []) = [] \<and>
   error (fst (runIndicator connected_client [[HistoricalDataEnd]] [] ''2024-01-02T10:00:00''))
     = ''No data received'' \<and>
   error (fst (runIndicator connected_client [[HistoricalDataEnd]] [] ''2024-01-02T10:00:00''))
     \<noteq> ''Not enough bars'' \<and>
   indicator (snd (runIndicator connected_client [[HistoricalDataEnd]] [] ''2024-01-02T10:00:00''))
     = indicator connected_client \<and>
   error (results (indicator
     (snd (runIndicator connected_client [[HistoricalDataEnd]] [] ''2024-01-02T10:00:00''))))
     = ''''"
  by (simp add: runIndicator_def getHistoricalData_def requestHistoricalData_def
      connected_client_def IBKRAutoFibClient_init_def historicalDataEnd_def Let_def
      AutoFibIndicator_init_def FibonacciResults_init_def)

text \<open>
  C2, amended. On a connected client, when the producer pushes no bar and signals
  completion before the timeout (in a round of the message loop after any number of idle
  rounds, or during the wait), the acquisition returns the empty sequence on its success
  path, and \<open>runIndicator\<close> returns the error \<open>No data received\<close> without invoking
  \<open>calculate\<close>: the indicator is unchanged. \<open>calculate\<close> itself, given the empty sequence,
  reports \<open>Not enough bars\<close> whenever lookback plus offset is positive.
\<close>

theorem runIndicator_empty_completion:
  assumes "connected c"
  shows "fst (wait_for (process_loop (snd (requestHistoricalData c))
             (replicate k [] @ [HistoricalDataEnd] # rest)) during_wait) \<and>
         fst (getHistoricalData (process_loop (snd (requestHistoricalData c))
             (replicate k [] @ [HistoricalDataEnd] # rest)) during_wait) = [] \<and>
         runIndicator c (replicate k [] @ [HistoricalDataEnd] # rest) during_wait now =
           (FibonacciResults_init\<lparr>error := ''No data received''\<rparr>,
            c\<lparr>historical_data := [], data_ready := True, data_end_received := True\<rparr>) \<and>
         fst (wait_for (process_loop (snd (requestHistoricalData c)) (replicate k []))
             (HistoricalDataEnd # rest')) \<and>
         runIndicator c (replicate k []) (HistoricalDataEnd # rest') now =
           (FibonacciResults_init\<lparr>error := ''No data received''\<rparr>,
            c\<lparr>historical_data := [], data_ready := True, data_end_received := True\<rparr>) \<and>
         (0 < bars_back ind + start_bar ind \<longrightarrow>
            error (fst (calculate ind [] now)) = ''Not enough bars'')"
proof -
  let ?c1 = "c\<lparr>historical_data := [], data_ready := False, data_end_received := False\<rparr>"
  let ?c2 = "c\<lparr>historical_data := [], data_ready := True, data_end_received := True\<rparr>"
  have req: "requestHistoricalData c = (True, ?c1)"
    by (rule requestHistoricalData_connected [OF assms])
  have ended: "historicalDataEnd ?c1 = ?c2"
    by (simp add: historicalDataEnd_def)
  have loop: "process_loop ?c1 (replicate k [] @ [HistoricalDataEnd] # rest) = ?c2"
    by (simp add: process_loop_idle ended process_loop_signalled)
  have idle: "process_loop ?c1 (replicate k []) = ?c1"
    using process_loop_idle [of ?c1 k "[]"] by simp
  have wait2: "wait_for ?c2 during_wait = (True, ?c2)"
    by (rule wait_for_signalled) simp
  have wait1: "wait_for ?c1 (HistoricalDataEnd # rest') = (True, ?c2)"
    by (simp add: ended wait_for_signalled)
  have got2: "getHistoricalData ?c2 during_wait = ([], ?c2)"
    by (simp add: getHistoricalData_def wait2)
  have got1: "getHistoricalData ?c1 (HistoricalDataEnd # rest') = ([], ?c2)"
    by (simp add: getHistoricalData_def ended wait_for_signalled)
  have run2: "runIndicator c (replicate k [] @ [HistoricalDataEnd] # rest) during_wait now =
      (FibonacciResults_init\<lparr>error := ''No data received''\<rparr>, ?c2)"
    by (simp add: runIndicator_def req loop got2)
  have run1: "runIndicator c (replicate k []) (HistoricalDataEnd # rest') now =
      (FibonacciResults_init\<lparr>error := ''No data received''\<rparr>, ?c2)"
    by (simp add: runIndicator_def req idle got1)
  have engine: "0 < bars_back ind + start_bar ind \<longrightarrow>
      error (fst (calculate ind [] now)) = ''Not enough bars''"
    by (simp add: calculate_def fail_def Let_def)
  have "fst (wait_for (process_loop (snd (requestHistoricalData c))
      (replicate k [] @ [HistoricalDataEnd] # rest)) during_wait)"
    by (simp add: req loop wait2)
  moreover have "fst (getHistoricalData (process_loop (snd (requestHistoricalData c))
      (replicate k [] @ [HistoricalDataEnd] # rest)) during_wait) = []"
    by (simp add: req loop got2)
  moreover have "fst (wait_for (process_loop (snd (requestHistoricalData c)) (replicate k []))
      (HistoricalDataEnd # rest'))"
    by (simp add: req idle ended wait_for_signalled)
  ultimately show ?thesis
    using run1 run2 engine by blast
qed

theorem runIndicator_empty_completion_witness:
  "connected connected_client \<and>
   error (fst (runIndicator connected_client [[], [HistoricalDataEnd]] []
     ''2024-01-02T10:00:00'')) = ''No data received'' \<and>
   historical_data (snd (runIndicator connected_client [[], [HistoricalDataEnd]] []
     ''2024-01-02T10:00:00'')) = [] \<and>
   data_end_received (snd (runIndicator connected_client [[], [HistoricalDataEnd]] []
     ''2024-01-02T10:00:00'')) \<and>
   indicator (snd (runIndicator connected_client [[], [HistoricalDataEnd]] []
     ''2024-01-02T10:00:00'')) = indicator connected_client \<and>
   error (fst (calculate (AutoFibIndicator_init 20 0) [] ''2024-01-02T10:00:00''))
     = ''Not enough bars''"
proof -
  have conn: "connected connected_client"
    by (simp add: connected_client_def)
  have lookback: "0 < bars_back (AutoFibIndicator_init 20 0) + start_bar (AutoFibIndicator_init 20 0)"
    by (simp add: AutoFibIndicator_init_config)
  from runIndicator_empty_completion
    [OF conn, of 1 "[]" "[]" "''2024-01-02T10:00:00''" "[]" "AutoFibIndicator_init 20 0"]
  show ?thesis
    using conn lookback by simp
qed

section \<open>Rounding\<close>

lemma pow2_powi: "pow2 e = 2 powi e"
  by (simp add: pow2_def power_int_def field_simps)

lemma pow2_pos: "0 < pow2 e"
  by (simp add: pow2_powi)

lemma pow2_add: "pow2 (a + b) = pow2 a * pow2 b"
  by (simp add: pow2_powi power_int_add)

lemma pow2_mono: "a \<le> b \<Longrightarrow> pow2 a \<le> pow2 b"
  by (simp add: pow2_powi power_int_increasing)

lemma pow2_less_cancel: "pow2 a < pow2 b \<Longrightarrow> a < b"
  using pow2_mono [of b a] by (cases "a < b") simp_all

lemma pow2_nat: "0 \<le> e \<Longrightarrow> pow2 e = of_int (2 ^ nat e)"
  by (simp add: pow2_def)

lemma pow2_grid: "a \<le> b \<Longrightarrow> pow2 b = of_int (2 ^ nat (b - a)) * pow2 a"
proof -
  assume "a \<le> b"
  have "pow2 b = pow2 ((b - a) + a)" by simp
  also have "\<dots> = pow2 (b - a) * pow2 a" by (rule pow2_add)
  also have "pow2 (b - a) = of_int (2 ^ nat (b - a))"
    using \<open>a \<le> b\<close> by (simp add: pow2_nat)
  finally show ?thesis .
qed

lemma ilog2_bounds:
  assumes "x \<noteq> 0"
  shows "pow2 (ilog2 x) \<le> \<bar>x\<bar>" and "\<bar>x\<bar> < pow2 (ilog2 x + 1)"
proof -
  obtain a b where q: "quotient_of \<bar>x\<bar> = (a, b)" by (cases "quotient_of \<bar>x\<bar>")
  then have b: "0 < b" by (rule quotient_of_denom_pos)
  have x: "\<bar>x\<bar> = of_int a / of_int b" using q by (rule quotient_of_div)
  from assms have "0 < \<bar>x\<bar>" by simp
  with x b have a: "0 < a" by (simp add: zero_less_divide_iff)
  define d where "d = bitlen a - bitlen b"
  note ba = bitlen_bounds [OF a] and bb = bitlen_bounds [OF b]
  have la: "1 \<le> bitlen a" and lb: "1 \<le> bitlen b"
    using a b by (simp_all add: bitlen_def floorlog_def)
  have "(of_int (2 ^ nat (bitlen a - 1)) :: rat) \<le> of_int a"
    using ba by (simp only: of_int_le_iff)
  then have A1: "pow2 (bitlen a - 1) \<le> of_int a"
    using la by (simp add: pow2_nat)
  have "(of_int a :: rat) < of_int (2 ^ nat (bitlen a))"
    using ba by (simp only: of_int_less_iff)
  then have A2: "of_int a < pow2 (bitlen a)"
    using la by (simp add: pow2_nat)
  have "(of_int (2 ^ nat (bitlen b - 1)) :: rat) \<le> of_int b"
    using bb by (simp only: of_int_le_iff)
  then have B1: "pow2 (bitlen b - 1) \<le> of_int b"
    using lb by (simp add: pow2_nat)
  have "(of_int b :: rat) < of_int (2 ^ nat (bitlen b))"
    using bb by (simp only: of_int_less_iff)
  then have B2: "of_int b < pow2 (bitlen b)"
    using lb by (simp add: pow2_nat)
  have bpos: "(0::rat) < of_int b" using b by simp
  have split1: "pow2 (bitlen a) = pow2 (d + 1) * pow2 (bitlen b - 1)"
    unfolding d_def by (simp flip: pow2_add)
  have split2: "pow2 (bitlen a - 1) = pow2 (d - 1) * pow2 (bitlen b)"
    unfolding d_def by (simp flip: pow2_add)
  have upper: "\<bar>x\<bar> < pow2 (d + 1)"
  proof -
    have "of_int a < pow2 (d + 1) * pow2 (bitlen b - 1)" using A2 split1 by simp
    also have "\<dots> \<le> pow2 (d + 1) * of_int b"
      using B1 pow2_pos [of "d + 1"] by (simp add: mult_left_mono)
    finally show ?thesis using bpos by (simp add: x pos_divide_less_eq)
  qed
  have lower: "pow2 (d - 1) \<le> \<bar>x\<bar>"
  proof -
    have "pow2 (d - 1) * of_int b \<le> pow2 (d - 1) * pow2 (bitlen b)"
      using B2 pow2_pos [of "d - 1"] by (simp add: mult_left_mono)
    also have "\<dots> \<le> of_int a" using A1 split2 by simp
    finally show ?thesis using bpos by (simp add: x pos_le_divide_eq)
  qed
  have il: "ilog2 x = (if pow2 d \<le> \<bar>x\<bar> then d else d - 1)"
    by (simp add: ilog2_def q d_def Let_def)
  show "pow2 (ilog2 x) \<le> \<bar>x\<bar>"
    using lower by (simp add: il)
  show "\<bar>x\<bar> < pow2 (ilog2 x + 1)"
    using upper by (simp add: il not_le)
qed

lemma ilog2_mono:
  assumes "x \<noteq> 0" "\<bar>x\<bar> \<le> \<bar>y\<bar>"
  shows "ilog2 x \<le> ilog2 y"
proof -
  from assms have y: "y \<noteq> 0" by auto
  have "pow2 (ilog2 x) \<le> \<bar>x\<bar>" by (rule ilog2_bounds(1) [OF assms(1)])
  also note assms(2)
  also have "\<bar>y\<bar> < pow2 (ilog2 y + 1)" by (rule ilog2_bounds(2) [OF y])
  finally have "ilog2 x < ilog2 y + 1" by (rule pow2_less_cancel)
  then show ?thesis by simp
qed

lemma ilog2_minus: "ilog2 (- x) = ilog2 x"
  by (simp add: ilog2_def)

lemma quantum_minus: "quantum (- x) = quantum x"
  by (simp add: quantum_def ilog2_minus)

lemma quantum_mono: "x \<noteq> 0 \<Longrightarrow> \<bar>x\<bar> \<le> \<bar>y\<bar> \<Longrightarrow> quantum x \<le> quantum y"
  using ilog2_mono [of x y] by (simp add: quantum_def)

lemma round_half_even_of_int: "round_half_even (of_int k) = k"
  by (simp add: round_half_even_def)

lemma round_half_even_bounds:
  "\<lfloor>x\<rfloor> \<le> round_half_even x" "round_half_even x \<le> \<lfloor>x\<rfloor> + 1"
  by (simp_all add: round_half_even_def Let_def)

lemma round_half_even_mono:
  assumes "x \<le> y"
  shows "round_half_even x \<le> round_half_even y"
proof (cases "\<lfloor>x\<rfloor> = \<lfloor>y\<rfloor>")
  case True
  from assms have "x - of_int \<lfloor>y\<rfloor> \<le> y - of_int \<lfloor>y\<rfloor>" by simp
  then show ?thesis
    by (auto simp add: round_half_even_def Let_def True)
next
  case False
  with assms have "\<lfloor>x\<rfloor> < \<lfloor>y\<rfloor>"
    using floor_mono [OF assms] by simp
  then have "round_half_even x \<le> \<lfloor>y\<rfloor>"
    using round_half_even_bounds(2) [of x] by simp
  also have "\<dots> \<le> round_half_even y" by (rule round_half_even_bounds(1))
  finally show ?thesis .
qed

lemma round_half_even_le_int: "x \<le> of_int k \<Longrightarrow> round_half_even x \<le> k"
  using round_half_even_mono [of x "of_int k"] by (simp add: round_half_even_of_int)

lemma round_half_even_ge_int: "of_int k \<le> x \<Longrightarrow> k \<le> round_half_even x"
  using round_half_even_mono [of "of_int k" x] by (simp add: round_half_even_of_int)

lemma rnd_zero: "rnd 0 = 0"
  by (simp add: rnd_def)

text \<open>Rounding never crosses a point of the grid it rounds to.\<close>

lemma rnd_le_grid:
  assumes "x \<le> of_int k * pow2 (quantum x)"
  shows "rnd x \<le> of_int k * pow2 (quantum x)"
proof (cases "x = 0")
  case True
  with assms show ?thesis by (simp add: rnd_def)
next
  case False
  from assms have "x / pow2 (quantum x) \<le> of_int k"
    using pow2_pos [of "quantum x"] by (simp add: pos_divide_le_eq)
  then have "round_half_even (x / pow2 (quantum x)) \<le> k"
    by (rule round_half_even_le_int)
  then have "(of_int (round_half_even (x / pow2 (quantum x))) :: rat) \<le> of_int k"
    by (simp only: of_int_le_iff)
  then show ?thesis
    using False pow2_pos [of "quantum x"] by (simp add: rnd_def mult_right_mono)
qed

lemma rnd_ge_grid:
  assumes "of_int k * pow2 (quantum x) \<le> x"
  shows "of_int k * pow2 (quantum x) \<le> rnd x"
proof (cases "x = 0")
  case True
  with assms show ?thesis by (simp add: rnd_def)
next
  case False
  from assms have "of_int k \<le> x / pow2 (quantum x)"
    using pow2_pos [of "quantum x"] by (simp add: pos_le_divide_eq)
  then have "k \<le> round_half_even (x / pow2 (quantum x))"
    by (rule round_half_even_ge_int)
  then have "(of_int k :: rat) \<le> of_int (round_half_even (x / pow2 (quantum x)))"
    by (simp only: of_int_le_iff)
  then show ?thesis
    using False pow2_pos [of "quantum x"] by (simp add: rnd_def mult_right_mono)
qed

lemma rnd_nonneg: "0 \<le> x \<Longrightarrow> 0 \<le> rnd x"
  using rnd_ge_grid [of 0 x] by simp

lemma rnd_nonpos: "x \<le> 0 \<Longrightarrow> rnd x \<le> 0"
  using rnd_le_grid [of x 0] by simp

lemma rnd_mono_pos:
  assumes "0 < x" "x \<le> y"
  shows "rnd x \<le> rnd y"
proof -
  from assms have nz: "x \<noteq> 0" "y \<noteq> 0" and ab: "\<bar>x\<bar> \<le> \<bar>y\<bar>" by simp_all
  have qq: "quantum x \<le> quantum y" by (rule quantum_mono [OF nz(1) ab])
  show ?thesis
  proof (cases "quantum x = quantum y")
    case True
    have "x / pow2 (quantum y) \<le> y / pow2 (quantum y)"
      using assms(2) pow2_pos [of "quantum y"] by (simp add: divide_right_mono)
    then have "round_half_even (x / pow2 (quantum y)) \<le> round_half_even (y / pow2 (quantum y))"
      by (rule round_half_even_mono)
    then have "(of_int (round_half_even (x / pow2 (quantum y))) :: rat)
        \<le> of_int (round_half_even (y / pow2 (quantum y)))"
      by (simp only: of_int_le_iff)
    then show ?thesis
      using nz pow2_pos [of "quantum y"] by (simp add: rnd_def True mult_right_mono)
  next
    case False
    with qq have lt: "quantum x < quantum y" by simp
    then have qy: "quantum y = ilog2 y - 52"
      by (auto simp add: quantum_def max_def split: if_splits)
    have "ilog2 x - 52 \<le> quantum x" by (simp add: quantum_def)
    with lt qy have il: "ilog2 x + 1 \<le> ilog2 y" by simp
    define B where "B = pow2 (ilog2 y)"
    have "x < pow2 (ilog2 x + 1)"
      using ilog2_bounds(2) [OF nz(1)] assms(1) by simp
    also have "\<dots> \<le> B" unfolding B_def by (rule pow2_mono [OF il])
    finally have xB: "x \<le> B" by simp
    have By: "B \<le> y"
      using ilog2_bounds(1) [OF nz(2)] assms by (simp add: B_def)
    have gx: "B = of_int (2 ^ nat (ilog2 y - quantum x)) * pow2 (quantum x)"
      unfolding B_def by (rule pow2_grid) (use lt qy in simp)
    have gy: "B = of_int (2 ^ nat (ilog2 y - quantum y)) * pow2 (quantum y)"
      unfolding B_def by (rule pow2_grid) (use qy in simp)
    have "rnd x \<le> B"
      using rnd_le_grid [of x "2 ^ nat (ilog2 y - quantum x)"] xB gx by simp
    also have "B \<le> rnd y"
      using rnd_ge_grid [of "2 ^ nat (ilog2 y - quantum y)" y] By gy by simp
    finally show ?thesis .
  qed
qed

lemma round_half_even_minus: "round_half_even (- x) = - round_half_even x"
proof (cases "x = of_int \<lfloor>x\<rfloor>")
  case True
  then obtain k where "x = of_int k" ..
  then show ?thesis
    by (simp add: round_half_even_of_int flip: of_int_minus)
next
  case False
  then have fl: "\<lfloor>- x\<rfloor> = - \<lfloor>x\<rfloor> - 1"
    by (simp add: floor_minus ceiling_altdef)
  define d where "d = x - of_int \<lfloor>x\<rfloor>"
  have d': "- x - of_int (- \<lfloor>x\<rfloor> - 1) = 1 - d"
    by (simp add: d_def)
  have par: "even (- \<lfloor>x\<rfloor> - 1) \<longleftrightarrow> odd \<lfloor>x\<rfloor>"
    by simp
  have lhs: "round_half_even (- x) =
      (if 1 - d < 1 / 2 then - \<lfloor>x\<rfloor> - 1
       else if 1 / 2 < 1 - d then - \<lfloor>x\<rfloor>
       else if odd \<lfloor>x\<rfloor> then - \<lfloor>x\<rfloor> - 1 else - \<lfloor>x\<rfloor>)"
    by (simp only: round_half_even_def Let_def fl d' par) simp
  have rhs: "round_half_even x =
      (if d < 1 / 2 then \<lfloor>x\<rfloor>
       else if 1 / 2 < d then \<lfloor>x\<rfloor> + 1
       else if even \<lfloor>x\<rfloor> then \<lfloor>x\<rfloor> else \<lfloor>x\<rfloor> + 1)"
    by (simp add: round_half_even_def Let_def d_def)
  consider "d < 1 / 2" | "1 / 2 < d" | "d = 1 / 2" by linarith
  then show ?thesis
  proof cases
    case 1
    then have "\<not> 1 - d < 1 / 2" "1 / 2 < 1 - d" by simp_all
    with 1 show ?thesis by (simp add: lhs rhs)
  next
    case 2
    then have "1 - d < 1 / 2" "\<not> d < 1 / 2" by simp_all
    with 2 show ?thesis by (simp add: lhs rhs)
  next
    case 3
    then have "\<not> 1 - d < 1 / 2" "\<not> 1 / 2 < 1 - d" "\<not> d < 1 / 2" "\<not> 1 / 2 < d"
      by simp_all
    then show ?thesis by (simp add: lhs rhs)
  qed
qed

lemma rnd_minus: "rnd (- x) = - rnd x"
  by (simp add: rnd_def quantum_minus round_half_even_minus)

text \<open>Rounding to nearest is monotone.\<close>

lemma rnd_mono:
  assumes "x \<le> y"
  shows "rnd x \<le> rnd y"
proof -
  consider "0 < x" | "x \<le> 0" "0 \<le> y" | "y < 0" by linarith
  then show ?thesis
  proof cases
    case 1
    then show ?thesis using assms by (rule rnd_mono_pos)
  next
    case 2
    then have "rnd x \<le> 0" "0 \<le> rnd y" by (simp_all add: rnd_nonpos rnd_nonneg)
    then show ?thesis by simp
  next
    case 3
    with assms have "0 < - y" "- y \<le> - x" by simp_all
    then have "rnd (- y) \<le> rnd (- x)" by (rule rnd_mono_pos)
    then show ?thesis by (simp add: rnd_minus)
  qed
qed

lemma rnd_on_grid:
  assumes "quantum (of_int m * pow2 q) \<le> q"
  shows "rnd (of_int m * pow2 q) = of_int m * pow2 q"
proof -
  define v where "v = of_int m * pow2 q"
  define k where "k = m * 2 ^ nat (q - quantum v)"
  have g: "pow2 q = of_int (2 ^ nat (q - quantum v)) * pow2 (quantum v)"
    by (rule pow2_grid) (use assms in \<open>simp add: v_def\<close>)
  have vk: "v = of_int k * pow2 (quantum v)"
    unfolding k_def by (subst v_def, subst g) simp
  from vk have "v \<le> of_int k * pow2 (quantum v)" by linarith
  then have up: "rnd v \<le> of_int k * pow2 (quantum v)" by (rule rnd_le_grid)
  from vk have "of_int k * pow2 (quantum v) \<le> v" by linarith
  then have "of_int k * pow2 (quantum v) \<le> rnd v" by (rule rnd_ge_grid)
  with up have "rnd v = of_int k * pow2 (quantum v)" by linarith
  with vk have "rnd v = v" by linarith
  then show ?thesis by (simp add: v_def)
qed

lemma rnd_abs_le:
  assumes "x \<noteq> 0"
  shows "\<bar>rnd x\<bar> \<le> pow2 (quantum x + 53)"
proof -
  have q: "ilog2 x + 1 \<le> quantum x + 53" by (simp add: quantum_def)
  have top: "pow2 (quantum x + 53) = of_int (2 ^ 53) * pow2 (quantum x)"
    using pow2_grid [of "quantum x" "quantum x + 53"] by simp
  have "\<bar>x\<bar> < pow2 (ilog2 x + 1)" by (rule ilog2_bounds(2) [OF assms])
  also have "\<dots> \<le> pow2 (quantum x + 53)" by (rule pow2_mono [OF q])
  finally have ax: "\<bar>x\<bar> \<le> pow2 (quantum x + 53)" by simp
  then have "x \<le> of_int (2 ^ 53) * pow2 (quantum x)" by (simp add: top)
  then have up: "rnd x \<le> of_int (2 ^ 53) * pow2 (quantum x)" by (rule rnd_le_grid)
  from ax have "of_int (- (2 ^ 53)) * pow2 (quantum x) \<le> x" by (simp add: top)
  then have "of_int (- (2 ^ 53)) * pow2 (quantum x) \<le> rnd x" by (rule rnd_ge_grid)
  with up show ?thesis by (simp add: top abs_le_iff)
qed

text \<open>A rounded value is a binary64 value: rounding it again changes nothing.\<close>

lemma rnd_idem: "rnd (rnd x) = rnd x"
proof (cases "rnd x = 0")
  case True
  then show ?thesis by (simp add: rnd_zero)
next
  case False
  then have nz: "x \<noteq> 0" by (auto simp add: rnd_zero)
  define q where "q = quantum x"
  define m where "m = round_half_even (x / pow2 q)"
  have r: "rnd x = of_int m * pow2 q"
    using nz by (simp add: rnd_def q_def m_def)
  have qmin: "- 1074 \<le> q" by (simp add: q_def quantum_def)
  have "pow2 (ilog2 (rnd x)) \<le> \<bar>rnd x\<bar>" by (rule ilog2_bounds(1) [OF False])
  also have "\<dots> \<le> pow2 (q + 53)" unfolding q_def by (rule rnd_abs_le [OF nz])
  finally have le: "pow2 (ilog2 (rnd x)) \<le> pow2 (q + 53)" .
  have il: "ilog2 (rnd x) \<le> q + 53"
  proof (rule ccontr)
    assume "\<not> ilog2 (rnd x) \<le> q + 53"
    then have "q + 53 + 1 \<le> ilog2 (rnd x)" by simp
    then have "pow2 (q + 53 + 1) \<le> pow2 (ilog2 (rnd x))" by (rule pow2_mono)
    with le have "pow2 (q + 53 + 1) \<le> pow2 (q + 53)" by simp
    moreover have "pow2 (q + 53 + 1) = 2 * pow2 (q + 53)"
      using pow2_add [of "q + 53" 1] by (simp add: pow2_def)
    ultimately show False using pow2_pos [of "q + 53"] by simp
  qed
  show ?thesis
  proof (cases "ilog2 (rnd x) = q + 53")
    case False
    with il have "ilog2 (rnd x) - 52 \<le> q" by simp
    with qmin have "quantum (rnd x) \<le> q" by (simp add: quantum_def)
    then have "quantum (of_int m * pow2 q) \<le> q" by (simp add: r)
    then have "rnd (of_int m * pow2 q) = of_int m * pow2 q" by (rule rnd_on_grid)
    then show ?thesis by (simp add: r)
  next
    case True
    have "pow2 (q + 53) \<le> \<bar>rnd x\<bar>"
      using ilog2_bounds(1) [OF \<open>rnd x \<noteq> 0\<close>] by (simp add: True)
    moreover have "\<bar>rnd x\<bar> \<le> pow2 (q + 53)"
      unfolding q_def by (rule rnd_abs_le [OF nz])
    ultimately have ab: "\<bar>rnd x\<bar> = pow2 (q + 53)" by simp
    have qq: "quantum (rnd x) = q + 1"
      using qmin by (simp add: quantum_def True)
    have top: "pow2 (q + 53) = of_int (2 ^ 52) * pow2 (q + 1)"
      using pow2_grid [of "q + 1" "q + 53"] by simp
    from ab have "rnd x = pow2 (q + 53) \<or> rnd x = - pow2 (q + 53)"
      by (simp add: abs_if split: if_splits)
    then show ?thesis
    proof
      assume e: "rnd x = pow2 (q + 53)"
      then have v: "rnd x = of_int (2 ^ 52) * pow2 (q + 1)" by (simp add: top)
      have "quantum (of_int (2 ^ 52) * pow2 (q + 1)) \<le> q + 1"
        using qq by (simp add: v)
      then have "rnd (of_int (2 ^ 52) * pow2 (q + 1)) = of_int (2 ^ 52) * pow2 (q + 1)"
        by (rule rnd_on_grid)
      then show ?thesis by (simp add: v)
    next
      assume e: "rnd x = - pow2 (q + 53)"
      then have v: "rnd x = of_int (- (2 ^ 52)) * pow2 (q + 1)" by (simp add: top)
      have "quantum (of_int (- (2 ^ 52)) * pow2 (q + 1)) \<le> q + 1"
        using qq by (simp add: v)
      then have "rnd (of_int (- (2 ^ 52)) * pow2 (q + 1)) = of_int (- (2 ^ 52)) * pow2 (q + 1)"
        by (rule rnd_on_grid)
      then show ?thesis by (simp add: v)
    qed
  qed
qed

lemma is_double_rnd: "is_double (rnd x)"
  by (simp add: is_double_def rnd_idem)

lemma fmul_one: "fmul (rnd x) 1 = rnd x"
  by (simp add: fmul_def rnd_idem)

lemma fmul_zero: "fmul x 0 = 0"
  by (simp add: fmul_def rnd_zero)

lemma fadd_zero: "is_double x \<Longrightarrow> fadd x 0 = x"
  by (simp add: fadd_def is_double_def)

lemma fsub_zero: "is_double x \<Longrightarrow> fsub x 0 = x"
  by (simp add: fsub_def is_double_def)

lemma fadd_mono: "y \<le> z \<Longrightarrow> fadd x y \<le> fadd x z"
  by (simp add: fadd_def rnd_mono)

lemma fsub_antimono: "y \<le> z \<Longrightarrow> fsub x z \<le> fsub x y"
  by (simp add: fsub_def rnd_mono)

lemma fmul_mono: "0 \<le> x \<Longrightarrow> y \<le> z \<Longrightarrow> fmul x y \<le> fmul x z"
  by (simp add: fmul_def rnd_mono mult_left_mono)

lemma fsub_nonneg: "y \<le> x \<Longrightarrow> 0 \<le> fsub x y"
  by (simp add: fsub_def rnd_nonneg)

section \<open>The concrete windows in binary64 arithmetic\<close>

lemma rnd_whole:
  "rnd 1 = 1" "rnd 3 = 3" "rnd 9 = 9" "rnd 17 = 17"
  by code_simp+

lemma narrow_bars_extremes:
  "findLowestBar narrow_bars 0 2 = 0" "findHighestBar narrow_bars 0 2 = 1"
  by (simp_all add: findLowestBar_def findHighestBar_def narrow_bars_def bar_def
      lowest_loop.simps [of _ 0] lowest_loop.simps [of _ 1] lowest_loop.simps [of _ 2]
      highest_loop.simps [of _ 0] highest_loop.simps [of _ 1] highest_loop.simps [of _ 2])

lemma narrow_bars_bars:
  "narrow_bars ! 0 = bar ''20240102 09:30:00'' 9007199254740992 9007199254740991 9007199254740992"
  "narrow_bars ! Suc 0 = bar ''20240102 09:35:00'' 9007199254740994 9007199254740992 9007199254740992"
  "int (length narrow_bars) = 2"
  by (simp_all add: narrow_bars_def)

lemma narrow_bars_ok:
  "error (fst (calculate (AutoFibIndicator_init 2 0) narrow_bars now)) = ''''"
  by (simp add: calculate_success_iff AutoFibIndicator_init_config narrow_bars_extremes
      narrow_bars_bars bar_def)

lemma narrow_bars_fields:
  "trend (fst (calculate (AutoFibIndicator_init 2 0) narrow_bars now)) = ''BULLISH''"
  "low_value (fst (calculate (AutoFibIndicator_init 2 0) narrow_bars now)) = 9007199254740991"
  "high_value (fst (calculate (AutoFibIndicator_init 2 0) narrow_bars now)) = 9007199254740994"
  "fibo_range (fst (calculate (AutoFibIndicator_init 2 0) narrow_bars now)) = 3"
  by (simp_all add: calculate_success_fields [OF narrow_bars_ok] AutoFibIndicator_init_config
      narrow_bars_extremes narrow_bars_bars bar_def time_label_order fsub_def rnd_whole)

lemma narrow_bars_sums:
  "fadd 9007199254740991 (fmul 3 (rnd 0.236)) = 9007199254740992"
  "fadd 9007199254740991 (fmul 3 (rnd 0.382)) = 9007199254740992"
  "fadd 9007199254740991 (fmul 3 (rnd 0.618)) = 9007199254740992"
  by code_simp+

lemma decimal_bars_order:
  "rnd 0.2 < rnd 0.6" "rnd 0.5 < rnd 0.9" "0 < rnd 0.2" "rnd 0.2 < rnd 0.9"
  by code_simp+

lemma decimal_bars_extremes:
  "findLowestBar decimal_bars 0 2 = 0" "findHighestBar decimal_bars 0 2 = 1"
  using decimal_bars_order
  by (simp_all add: findLowestBar_def findHighestBar_def decimal_bars_def bar_def
      lowest_loop.simps [of _ 0] lowest_loop.simps [of _ 1] lowest_loop.simps [of _ 2]
      highest_loop.simps [of _ 0] highest_loop.simps [of _ 1] highest_loop.simps [of _ 2])

lemma decimal_bars_bars:
  "decimal_bars ! 0 = bar ''20240102 09:30:00'' (rnd 0.5) (rnd 0.2) (rnd 0.4)"
  "decimal_bars ! Suc 0 = bar ''20240102 09:35:00'' (rnd 0.9) (rnd 0.6) (rnd 0.8)"
  "int (length decimal_bars) = 2"
  by (simp_all add: decimal_bars_def)

lemma decimal_bars_ok:
  "error (fst (calculate (AutoFibIndicator_init 2 0) decimal_bars now)) = ''''"
  using decimal_bars_order
  by (simp add: calculate_success_iff AutoFibIndicator_init_config decimal_bars_extremes
      decimal_bars_bars bar_def)

lemma decimal_bars_fields:
  "trend (fst (calculate (AutoFibIndicator_init 2 0) decimal_bars now)) = ''BULLISH''"
  "low_value (fst (calculate (AutoFibIndicator_init 2 0) decimal_bars now)) = rnd 0.2"
  "high_value (fst (calculate (AutoFibIndicator_init 2 0) decimal_bars now)) = rnd 0.9"
  "fibo_range (fst (calculate (AutoFibIndicator_init 2 0) decimal_bars now)) = fsub (rnd 0.9) (rnd 0.2)"
  by (simp_all add: calculate_success_fields [OF decimal_bars_ok] AutoFibIndicator_init_config
      decimal_bars_extremes decimal_bars_bars bar_def time_label_order)

lemma decimal_bars_sums:
  "rnd 0.9 = 8106479329266893 / 9007199254740992"
  "fadd (rnd 0.2) (fmul (fsub (rnd 0.9) (rnd 0.2)) 1) = 8106479329266892 / 9007199254740992"
  by code_simp+

lemma scenario_A_fields:
  "trend (fst (calculate (AutoFibIndicator_init 5 0) scenario_A now)) = ''BULLISH''"
  "low_value (fst (calculate (AutoFibIndicator_init 5 0) scenario_A now)) = 8"
  "high_value (fst (calculate (AutoFibIndicator_init 5 0) scenario_A now)) = 17"
  "fibo_range (fst (calculate (AutoFibIndicator_init 5 0) scenario_A now)) = 9"
  by (simp_all add: calculate_success_fields [OF scenario_A_ok] AutoFibIndicator_init_config
      scenario_A_extremes scenario_A_bars bar_def time_label_order fsub_def rnd_whole)

lemma scenario_A_sums:
  "fadd 8 (fmul 9 (rnd 0.382)) = 6439021567232967 / 562949953421312"
  "fadd 8 (fmul 9 (rnd 0.618)) = 3817363634149917 / 281474976710656"
  by code_simp+

lemma default_levels_named:
  "default_levels ''level_0'' = Some 0" "default_levels ''level_1'' = Some (rnd 0.236)"
  "default_levels ''level_2'' = Some (rnd 0.382)" "default_levels ''level_4'' = Some (rnd 0.618)"
  "default_levels ''level_7'' = Some 1"
  by (simp_all add: default_levels_def rnd_zero rnd_whole)

lemma default_levels_zone:
  "fst (map_subscript default_levels ''level_2'') = rnd 0.382"
  "fst (map_subscript default_levels ''level_4'') = rnd 0.618"
  by (simp_all add: map_subscript_def default_levels_named)

lemma calculate_success_range:
  assumes "error (fst (calculate ind bars now)) = ''''"
  shows "fibo_range (fst (calculate ind bars now)) =
           fsub (high_value (fst (calculate ind bars now))) (low_value (fst (calculate ind bars now)))"
    and "0 \<le> fibo_range (fst (calculate ind bars now))"
    and "low_value (fst (calculate ind bars now)) < high_value (fst (calculate ind bars now))"
    and "trend (fst (calculate ind bars now)) = ''BULLISH'' \<longleftrightarrow>
           time (bars ! nat (findLowestBar bars (start_bar ind) (bars_back ind)))
             < time (bars ! nat (findHighestBar bars (start_bar ind) (bars_back ind)))"
proof -
  note f = calculate_success_fields [OF assms]
  show "fibo_range (fst (calculate ind bars now)) =
      fsub (high_value (fst (calculate ind bars now))) (low_value (fst (calculate ind bars now)))"
    by (simp add: f)
  show lt: "low_value (fst (calculate ind bars now)) < high_value (fst (calculate ind bars now))"
    using assms [unfolded calculate_success_iff] by (simp add: f)
  then show "0 \<le> fibo_range (fst (calculate ind bars now))"
    by (simp add: f(9) fsub_nonneg flip: f(3,4))
  show "trend (fst (calculate ind bars now)) = ''BULLISH'' \<longleftrightarrow>
      time (bars ! nat (findLowestBar bars (start_bar ind) (bars_back ind)))
        < time (bars ! nat (findHighestBar bars (start_bar ind) (bars_back ind)))"
    by (simp add: f(2))
qed

lemma default_zone:
  "golden_zone_low (fst (calculate (AutoFibIndicator_init b s) bars now)) =
     (if trend (fst (calculate (AutoFibIndicator_init b s) bars now)) = ''BULLISH''
      then fadd (low_value (fst (calculate (AutoFibIndicator_init b s) bars now)))
             (fmul (fibo_range (fst (calculate (AutoFibIndicator_init b s) bars now))) (rnd 0.382))
      else fsub (high_value (fst (calculate (AutoFibIndicator_init b s) bars now)))
             (fmul (fibo_range (fst (calculate (AutoFibIndicator_init b s) bars now))) (rnd 0.618)))"
  "golden_zone_high (fst (calculate (AutoFibIndicator_init b s) bars now)) =
     (if trend (fst (calculate (AutoFibIndicator_init b s) bars now)) = ''BULLISH''
      then fadd (low_value (fst (calculate (AutoFibIndicator_init b s) bars now)))
             (fmul (fibo_range (fst (calculate (AutoFibIndicator_init b s) bars now))) (rnd 0.618))
      else fsub (high_value (fst (calculate (AutoFibIndicator_init b s) bars now)))
             (fmul (fibo_range (fst (calculate (AutoFibIndicator_init b s) bars now))) (rnd 0.382)))"
  if "error (fst (calculate (AutoFibIndicator_init b s) bars now)) = ''''"
  by (simp_all only: calculate_success_zone(1,2) [OF that] calculate_success_range(4) [OF that]
      AutoFibIndicator_init_config default_levels_zone)

section \<open>Claims about the computed prices\<close>

text \<open>
  C4, as the claim states it, fails in two ways. A caller may install the two golden-zone
  ratios the other way round: with \<open>level_2\<close> at 3/4 and \<open>level_4\<close> at 1/4 the error-free
  result has \<open>golden_zone_low = 14\<close> above \<open>golden_zone_high = 10\<close>. And with the default
  ratios, on prices 9007199254740991 and 9007199254740994, both bounds round to the same
  binary64 value 9007199254740992.
\<close>

theorem golden_zone_order_counterexample:
  "error (fst (calculate (setFibonacciLevels (AutoFibIndicator_init 2 0) swapped_levels)
      (two_bars 14) ''2024-01-02T10:00:00'')) = '''' \<and>
   golden_zone_low (fst (calculate (setFibonacciLevels (AutoFibIndicator_init 2 0) swapped_levels)
      (two_bars 14) ''2024-01-02T10:00:00'')) = 14 \<and>
   golden_zone_high (fst (calculate (setFibonacciLevels (AutoFibIndicator_init 2 0) swapped_levels)
      (two_bars 14) ''2024-01-02T10:00:00'')) = 10 \<and>
   \<not> golden_zone_low (fst (calculate (setFibonacciLevels (AutoFibIndicator_init 2 0)
        swapped_levels) (two_bars 14) ''2024-01-02T10:00:00''))
     < golden_zone_high (fst (calculate (setFibonacciLevels (AutoFibIndicator_init 2 0)
        swapped_levels) (two_bars 14) ''2024-01-02T10:00:00'')) \<and>
   error (fst (calculate (AutoFibIndicator_init 2 0) narrow_bars ''2024-01-02T10:00:00'')) = '''' \<and>
   golden_zone_low (fst (calculate (AutoFibIndicator_init 2 0) narrow_bars
      ''2024-01-02T10:00:00'')) = 9007199254740992 \<and>
   golden_zone_high (fst (calculate (AutoFibIndicator_init 2 0) narrow_bars
      ''2024-01-02T10:00:00'')) = 9007199254740992 \<and>
   \<not> golden_zone_low (fst (calculate (AutoFibIndicator_init 2 0) narrow_bars
        ''2024-01-02T10:00:00''))
     < golden_zone_high (fst (calculate (AutoFibIndicator_init 2 0) narrow_bars
        ''2024-01-02T10:00:00''))"
proof -
  have swapped:
    "golden_zone_low (fst (calculate (setFibonacciLevels (AutoFibIndicator_init 2 0) swapped_levels)
       (two_bars 14) ''2024-01-02T10:00:00'')) = 14"
    "golden_zone_high (fst (calculate (setFibonacciLevels (AutoFibIndicator_init 2 0) swapped_levels)
       (two_bars 14) ''2024-01-02T10:00:00'')) = 10"
    by (simp_all add: two_bars_zone swapped_levels_def map_subscript_def fadd_def fmul_def rnd_small)
  have narrow:
    "golden_zone_low (fst (calculate (AutoFibIndicator_init 2 0) narrow_bars
       ''2024-01-02T10:00:00'')) = 9007199254740992"
    "golden_zone_high (fst (calculate (AutoFibIndicator_init 2 0) narrow_bars
       ''2024-01-02T10:00:00'')) = 9007199254740992"
    by (simp_all only: default_zone [OF narrow_bars_ok] narrow_bars_fields narrow_bars_sums
        simp_thms if_True)
  show ?thesis
    by (simp add: two_bars_ok narrow_bars_ok swapped narrow)
qed

text \<open>
  C4, amended. In an error-free result \<open>golden_zone_low \<le> golden_zone_high\<close> whenever the
  ratio that \<open>calculate\<close> reads for \<open>level_2\<close> is at most the one it reads for \<open>level_4\<close>
  (a name missing from the map reads as 0); the default map is such a map. The two bounds
  may coincide.
\<close>

theorem golden_zone_ordered:
  assumes "error (fst (calculate ind bars now)) = ''''"
  shows "(fst (map_subscript (fibo_level_values ind) ''level_2'')
            \<le> fst (map_subscript (fibo_level_values ind) ''level_4'') \<longrightarrow>
          golden_zone_low (fst (calculate ind bars now))
            \<le> golden_zone_high (fst (calculate ind bars now))) \<and>
         (fibo_level_values ind = default_levels \<longrightarrow>
          golden_zone_low (fst (calculate ind bars now))
            \<le> golden_zone_high (fst (calculate ind bars now)))"
proof -
  note z = calculate_success_zone(1,2) [OF assms]
  note r = calculate_success_range(2) [OF assms]
  have ordered: "golden_zone_low (fst (calculate ind bars now))
      \<le> golden_zone_high (fst (calculate ind bars now))"
    if "fst (map_subscript (fibo_level_values ind) ''level_2'')
      \<le> fst (map_subscript (fibo_level_values ind) ''level_4'')"
  proof -
    from r that have "fmul (fibo_range (fst (calculate ind bars now)))
        (fst (map_subscript (fibo_level_values ind) ''level_2''))
      \<le> fmul (fibo_range (fst (calculate ind bars now)))
        (fst (map_subscript (fibo_level_values ind) ''level_4''))"
      by (rule fmul_mono)
    then show ?thesis
      by (simp add: z fadd_mono fsub_antimono)
  qed
  moreover have "fst (map_subscript default_levels ''level_2'')
      \<le> fst (map_subscript default_levels ''level_4'')"
    by (simp add: default_levels_zone rnd_mono)
  ultimately show ?thesis by auto
qed

theorem golden_zone_ordered_witness:
  "error (fst (calculate (AutoFibIndicator_init 5 0) scenario_A ''2024-01-02T10:00:00'')) = '''' \<and>
   fibo_level_values (AutoFibIndicator_init 5 0) = default_levels \<and>
   golden_zone_low (fst (calculate (AutoFibIndicator_init 5 0) scenario_A ''2024-01-02T10:00:00''))
     = 6439021567232967 / 562949953421312 \<and>
   golden_zone_high (fst (calculate (AutoFibIndicator_init 5 0) scenario_A ''2024-01-02T10:00:00''))
     = 3817363634149917 / 281474976710656 \<and>
   golden_zone_low (fst (calculate (AutoFibIndicator_init 5 0) scenario_A ''2024-01-02T10:00:00''))
     \<le> golden_zone_high (fst (calculate (AutoFibIndicator_init 5 0) scenario_A
          ''2024-01-02T10:00:00''))"
proof -
  have vals:
    "golden_zone_low (fst (calculate (AutoFibIndicator_init 5 0) scenario_A ''2024-01-02T10:00:00''))
       = 6439021567232967 / 562949953421312"
    "golden_zone_high (fst (calculate (AutoFibIndicator_init 5 0) scenario_A ''2024-01-02T10:00:00''))
       = 3817363634149917 / 281474976710656"
    by (simp_all only: default_zone [OF scenario_A_ok] scenario_A_fields scenario_A_sums
        simp_thms if_True)
  have cfg: "fibo_level_values (AutoFibIndicator_init 5 0) = default_levels"
    by (rule AutoFibIndicator_init_config(3))
  from golden_zone_ordered [OF scenario_A_ok, of "''2024-01-02T10:00:00''"] cfg
  have "golden_zone_low (fst (calculate (AutoFibIndicator_init 5 0) scenario_A ''2024-01-02T10:00:00''))
     \<le> golden_zone_high (fst (calculate (AutoFibIndicator_init 5 0) scenario_A
          ''2024-01-02T10:00:00''))"
    by blast
  with vals cfg scenario_A_ok show ?thesis by blast
qed

lemma calculate_success_levels:
  assumes "error (fst (calculate ind bars now)) = ''''"
  shows "fibo_levels (fst (calculate ind bars now)) name =
      (case fibo_level_values ind name of
         None \<Rightarrow> None
       | Some r \<Rightarrow>
           Some (if trend (fst (calculate ind bars now)) = ''BULLISH''
                 then fadd (low_value (fst (calculate ind bars now)))
                        (fmul (fibo_range (fst (calculate ind bars now))) r)
                 else fsub (high_value (fst (calculate ind bars now)))
                        (fmul (fibo_range (fst (calculate ind bars now))) r)))"
  by (simp only: calculate_success_zone(3) [OF assms] calculate_success_range(4) [OF assms])

text \<open>
  C6, as the claim states it, fails in its last part: the level for ratio 1.0 is
  \<open>low + (high - low) * 1.0\<close> in binary64 arithmetic, and that need not be \<open>high\<close>. With
  the default ratios, low 0.2 and high 0.9 (the binary64 values nearest to them) and a
  bullish trend, the level \<open>level_7\<close> of ratio 1.0 is one unit in the last place below the
  high.
\<close>

theorem level_one_counterexample:
  "error (fst (calculate (AutoFibIndicator_init 2 0) decimal_bars ''2024-01-02T10:00:00'')) = '''' \<and>
   trend (fst (calculate (AutoFibIndicator_init 2 0) decimal_bars ''2024-01-02T10:00:00''))
     = ''BULLISH'' \<and>
   fibo_level_values (AutoFibIndicator_init 2 0) ''level_7'' = Some 1 \<and>
   low_value (fst (calculate (AutoFibIndicator_init 2 0) decimal_bars ''2024-01-02T10:00:00''))
     = rnd 0.2 \<and>
   high_value (fst (calculate (AutoFibIndicator_init 2 0) decimal_bars ''2024-01-02T10:00:00''))
     = rnd 0.9 \<and>
   rnd 0.9 = 8106479329266893 / 9007199254740992 \<and>
   fibo_levels (fst (calculate (AutoFibIndicator_init 2 0) decimal_bars ''2024-01-02T10:00:00''))
     ''level_7'' = Some (8106479329266892 / 9007199254740992) \<and>
   fibo_levels (fst (calculate (AutoFibIndicator_init 2 0) decimal_bars ''2024-01-02T10:00:00''))
     ''level_7''
     \<noteq> Some (high_value (fst (calculate (AutoFibIndicator_init 2 0) decimal_bars
          ''2024-01-02T10:00:00'')))"
proof -
  let ?r = "fst (calculate (AutoFibIndicator_init 2 0) decimal_bars ''2024-01-02T10:00:00'')"
  have ratio: "fibo_level_values (AutoFibIndicator_init 2 0) ''level_7'' = Some 1"
    by (simp add: AutoFibIndicator_init_config default_levels_named)
  have "fibo_levels ?r ''level_7'' =
      Some (fadd (rnd 0.2) (fmul (fsub (rnd 0.9) (rnd 0.2)) 1))"
    by (simp only: calculate_success_levels [OF decimal_bars_ok] ratio option.case
        decimal_bars_fields simp_thms if_True)
  then have level: "fibo_levels ?r ''level_7'' = Some (8106479329266892 / 9007199254740992)"
    by (simp only: decimal_bars_sums(2))
  have "fibo_levels ?r ''level_7'' \<noteq> Some (high_value ?r)"
    by (simp only: level decimal_bars_fields decimal_bars_sums) simp
  with decimal_bars_ok decimal_bars_fields decimal_bars_sums(1) level ratio
  show ?thesis by blast
qed

text \<open>
  C6, amended. In an error-free result the range is \<open>high - low\<close> and each name of the
  level map with ratio \<open>r\<close> has the level price \<open>low + range * r\<close> when the trend is
  \<open>BULLISH\<close> and \<open>high - range * r\<close> when it is \<open>BEARISH\<close>, each operation in binary64
  arithmetic; a name the map lacks has no level price. Under the default ratios, with the
  low and the high binary64 values, the level of ratio 0.0 is the low when bullish and the
  high when bearish, and the level of ratio 1.0 is \<open>low + (high - low)\<close> when bullish and
  \<open>high - (high - low)\<close> when bearish, as binary64 arithmetic rounds them.
\<close>

theorem fibo_levels_formula:
  assumes "error (fst (calculate ind bars now)) = ''''"
  shows "fibo_range (fst (calculate ind bars now)) =
           fsub (high_value (fst (calculate ind bars now))) (low_value (fst (calculate ind bars now))) \<and>
         (trend (fst (calculate ind bars now)) = ''BULLISH'' \<or>
          trend (fst (calculate ind bars now)) = ''BEARISH'') \<and>
         (\<forall>name. fibo_levels (fst (calculate ind bars now)) name =
            (case fibo_level_values ind name of
               None \<Rightarrow> None
             | Some r \<Rightarrow>
                 Some (if trend (fst (calculate ind bars now)) = ''BULLISH''
                       then fadd (low_value (fst (calculate ind bars now)))
                              (fmul (fibo_range (fst (calculate ind bars now))) r)
                       else fsub (high_value (fst (calculate ind bars now)))
                              (fmul (fibo_range (fst (calculate ind bars now))) r)))) \<and>
         (fibo_level_values ind = default_levels \<and>
          is_double (low_value (fst (calculate ind bars now))) \<and>
          is_double (high_value (fst (calculate ind bars now))) \<longrightarrow>
            fibo_levels (fst (calculate ind bars now)) ''level_0'' =
              Some (if trend (fst (calculate ind bars now)) = ''BULLISH''
                    then low_value (fst (calculate ind bars now))
                    else high_value (fst (calculate ind bars now))) \<and>
            fibo_levels (fst (calculate ind bars now)) ''level_7'' =
              Some (if trend (fst (calculate ind bars now)) = ''BULLISH''
                    then fadd (low_value (fst (calculate ind bars now)))
                           (fsub (high_value (fst (calculate ind bars now)))
                              (low_value (fst (calculate ind bars now))))
                    else fsub (high_value (fst (calculate ind bars now)))
                           (fsub (high_value (fst (calculate ind bars now)))
                              (low_value (fst (calculate ind bars now))))))"
proof -
  note rg = calculate_success_range(1) [OF assms]
  note bull = calculate_success_range(4) [OF assms]
  have formula: "fibo_levels (fst (calculate ind bars now)) name =
      (case fibo_level_values ind name of
         None \<Rightarrow> None
       | Some r \<Rightarrow>
           Some (if trend (fst (calculate ind bars now)) = ''BULLISH''
                 then fadd (low_value (fst (calculate ind bars now)))
                        (fmul (fibo_range (fst (calculate ind bars now))) r)
                 else fsub (high_value (fst (calculate ind bars now)))
                        (fmul (fibo_range (fst (calculate ind bars now))) r)))" for name
    by (rule calculate_success_levels [OF assms])
  have kinds: "trend (fst (calculate ind bars now)) = ''BULLISH'' \<or>
      trend (fst (calculate ind bars now)) = ''BEARISH''"
    by (simp add: calculate_success_fields(2) [OF assms])
  have ends: "fibo_levels (fst (calculate ind bars now)) ''level_0'' =
        Some (if trend (fst (calculate ind bars now)) = ''BULLISH''
              then low_value (fst (calculate ind bars now))
              else high_value (fst (calculate ind bars now))) \<and>
      fibo_levels (fst (calculate ind bars now)) ''level_7'' =
        Some (if trend (fst (calculate ind bars now)) = ''BULLISH''
              then fadd (low_value (fst (calculate ind bars now)))
                     (fsub (high_value (fst (calculate ind bars now)))
                        (low_value (fst (calculate ind bars now))))
              else fsub (high_value (fst (calculate ind bars now)))
                     (fsub (high_value (fst (calculate ind bars now)))
                        (low_value (fst (calculate ind bars now)))))"
    if "fibo_level_values ind = default_levels \<and>
      is_double (low_value (fst (calculate ind bars now))) \<and>
      is_double (high_value (fst (calculate ind bars now)))"
  proof -
    have one: "fmul (fibo_range (fst (calculate ind bars now))) 1 =
        fsub (high_value (fst (calculate ind bars now))) (low_value (fst (calculate ind bars now)))"
      unfolding rg fsub_def by (rule fmul_one)
    from that show ?thesis
      by (simp add: formula default_levels_named(1,5) fmul_zero fadd_zero fsub_zero one)
  qed
  from rg kinds formula ends show ?thesis by blast
qed

theorem fibo_levels_formula_witness:
  "error (fst (calculate (AutoFibIndicator_init 5 0) scenario_A ''2024-01-02T10:00:00'')) = '''' \<and>
   fibo_level_values (AutoFibIndicator_init 5 0) = default_levels \<and>
   trend (fst (calculate (AutoFibIndicator_init 5 0) scenario_A ''2024-01-02T10:00:00''))
     = ''BULLISH'' \<and>
   low_value (fst (calculate (AutoFibIndicator_init 5 0) scenario_A ''2024-01-02T10:00:00'')) = 8 \<and>
   high_value (fst (calculate (AutoFibIndicator_init 5 0) scenario_A ''2024-01-02T10:00:00'')) = 17 \<and>
   is_double 8 \<and> is_double 17 \<and>
   fibo_range (fst (calculate (AutoFibIndicator_init 5 0) scenario_A ''2024-01-02T10:00:00'')) = 9 \<and>
   fibo_levels (fst (calculate (AutoFibIndicator_init 5 0) scenario_A ''2024-01-02T10:00:00''))
     ''level_0'' = Some 8 \<and>
   fibo_levels (fst (calculate (AutoFibIndicator_init 5 0) scenario_A ''2024-01-02T10:00:00''))
     ''level_7'' = Some 17 \<and>
   fibo_levels (fst (calculate (AutoFibIndicator_init 5 0) scenario_A ''2024-01-02T10:00:00''))
     ''level_4'' = Some (fadd 8 (fmul 9 (rnd 0.618)))"
proof -
  let ?r = "fst (calculate (AutoFibIndicator_init 5 0) scenario_A ''2024-01-02T10:00:00'')"
  have r: "rnd 8 = 8" "rnd 17 = 17" "rnd 9 = 9"
    by (simp_all add: rnd_small rnd_whole)
  have cfg: "fibo_level_values (AutoFibIndicator_init 5 0) = default_levels"
    by (rule AutoFibIndicator_init_config(3))
  have lo: "low_value ?r = 8" and hi: "high_value ?r = 17"
    by (rule scenario_A_fields)+
  have bull: "trend ?r = ''BULLISH''"
    by (rule scenario_A_fields)
  have dbl: "is_double 8" "is_double 17"
    by (simp_all add: is_double_def r)
  have four: "default_levels ''level_4'' = Some (rnd 0.618)"
    by (rule default_levels_named)
  note inst = fibo_levels_formula [OF scenario_A_ok, of "''2024-01-02T10:00:00''"]
  from inst have "fibo_range ?r = fsub (high_value ?r) (low_value ?r)"
    by (rule conjunct1)
  then have range: "fibo_range ?r = 9"
    by (simp add: lo hi fsub_def r)
  from inst have "\<forall>name. fibo_levels ?r name =
      (case fibo_level_values (AutoFibIndicator_init 5 0) name of
         None \<Rightarrow> None
       | Some r \<Rightarrow>
           Some (if trend ?r = ''BULLISH''
                 then fadd (low_value ?r) (fmul (fibo_range ?r) r)
                 else fsub (high_value ?r) (fmul (fibo_range ?r) r)))"
    by (rule conjunct1 [OF conjunct2 [OF conjunct2]])
  then have "fibo_levels ?r ''level_4'' =
      (case fibo_level_values (AutoFibIndicator_init 5 0) ''level_4'' of
         None \<Rightarrow> None
       | Some r \<Rightarrow>
           Some (if trend ?r = ''BULLISH''
                 then fadd (low_value ?r) (fmul (fibo_range ?r) r)
                 else fsub (high_value ?r) (fmul (fibo_range ?r) r)))"
    by (rule HOL.spec)
  then have level4: "fibo_levels ?r ''level_4'' = Some (fadd 8 (fmul 9 (rnd 0.618)))"
    by (simp add: cfg four bull lo range)
  from inst have "fibo_level_values (AutoFibIndicator_init 5 0) = default_levels \<and>
      is_double (low_value ?r) \<and> is_double (high_value ?r) \<longrightarrow>
      fibo_levels ?r ''level_0'' =
        Some (if trend ?r = ''BULLISH'' then low_value ?r else high_value ?r) \<and>
      fibo_levels ?r ''level_7'' =
        Some (if trend ?r = ''BULLISH''
              then fadd (low_value ?r) (fsub (high_value ?r) (low_value ?r))
              else fsub (high_value ?r) (fsub (high_value ?r) (low_value ?r)))"
    by (rule conjunct2 [OF conjunct2 [OF conjunct2]])
  with cfg dbl have "fibo_levels ?r ''level_0'' = Some 8 \<and>
      fibo_levels ?r ''level_7'' = Some 17"
    by (simp add: lo hi bull fadd_def fsub_def r)
  with level4 show ?thesis
    using scenario_A_ok cfg bull lo hi dbl range by blast
qed

text \<open>
  C10, as the claim states it, fails: two level prices of different ratios can round to the
  same binary64 value. With the default ratios on prices 9007199254740991 and
  9007199254740994 (bullish, range 3) the levels of ratio 0.236 and of ratio 0.382 are both
  9007199254740992.
\<close>

theorem level_prices_strict_counterexample:
  "error (fst (calculate (AutoFibIndicator_init 2 0) narrow_bars ''2024-01-02T10:00:00'')) = '''' \<and>
   trend (fst (calculate (AutoFibIndicator_init 2 0) narrow_bars ''2024-01-02T10:00:00''))
     = ''BULLISH'' \<and>
   fibo_range (fst (calculate (AutoFibIndicator_init 2 0) narrow_bars ''2024-01-02T10:00:00'')) = 3 \<and>
   fibo_level_values (AutoFibIndicator_init 2 0) ''level_1'' = Some (rnd 0.236) \<and>
   fibo_level_values (AutoFibIndicator_init 2 0) ''level_2'' = Some (rnd 0.382) \<and>
   rnd 0.236 < rnd 0.382 \<and>
   fibo_levels (fst (calculate (AutoFibIndicator_init 2 0) narrow_bars ''2024-01-02T10:00:00''))
     ''level_1'' = Some 9007199254740992 \<and>
   fibo_levels (fst (calculate (AutoFibIndicator_init 2 0) narrow_bars ''2024-01-02T10:00:00''))
     ''level_2'' = Some 9007199254740992"
proof -
  let ?r = "fst (calculate (AutoFibIndicator_init 2 0) narrow_bars ''2024-01-02T10:00:00'')"
  have ratios: "fibo_level_values (AutoFibIndicator_init 2 0) ''level_1'' = Some (rnd 0.236)"
    "fibo_level_values (AutoFibIndicator_init 2 0) ''level_2'' = Some (rnd 0.382)"
    by (simp_all only: AutoFibIndicator_init_config default_levels_named)
  have less: "rnd 0.236 < rnd 0.382" by code_simp
  have "fibo_levels ?r ''level_1'' = Some 9007199254740992"
    and "fibo_levels ?r ''level_2'' = Some 9007199254740992"
    by (simp_all only: calculate_success_levels [OF narrow_bars_ok] ratios option.case
        narrow_bars_fields narrow_bars_sums simp_thms if_True)
  with narrow_bars_ok narrow_bars_fields(1,4) ratios less show ?thesis by blast
qed

text \<open>
  C10, amended. In an error-free result the low is strictly below the high, the range is
  not negative, and the level prices are monotone in the ratios, though not strictly: for
  two names of the level map with ratios \<open>r1 \<le> r2\<close>, the level price of the first is at
  most that of the second when the trend is \<open>BULLISH\<close>, and at least that of the second
  when the trend is \<open>BEARISH\<close>.
\<close>

theorem level_prices_monotone:
  assumes "error (fst (calculate ind bars now)) = ''''"
    and "fibo_level_values ind n1 = Some r1"
    and "fibo_level_values ind n2 = Some r2"
    and "r1 \<le> r2"
  shows "low_value (fst (calculate ind bars now)) < high_value (fst (calculate ind bars now)) \<and>
         0 \<le> fibo_range (fst (calculate ind bars now)) \<and>
         (\<exists>p1 p2.
            fibo_levels (fst (calculate ind bars now)) n1 = Some p1 \<and>
            fibo_levels (fst (calculate ind bars now)) n2 = Some p2 \<and>
            (trend (fst (calculate ind bars now)) = ''BULLISH'' \<longrightarrow> p1 \<le> p2) \<and>
            (trend (fst (calculate ind bars now)) = ''BEARISH'' \<longrightarrow> p2 \<le> p1))"
proof -
  note rg = calculate_success_range(2) [OF assms(1)]
  from rg assms(4)
  have prod: "fmul (fibo_range (fst (calculate ind bars now))) r1
      \<le> fmul (fibo_range (fst (calculate ind bars now))) r2"
    by (rule fmul_mono)
  have l1: "fibo_levels (fst (calculate ind bars now)) n1 =
      Some (if trend (fst (calculate ind bars now)) = ''BULLISH''
            then fadd (low_value (fst (calculate ind bars now)))
                   (fmul (fibo_range (fst (calculate ind bars now))) r1)
            else fsub (high_value (fst (calculate ind bars now)))
                   (fmul (fibo_range (fst (calculate ind bars now))) r1))"
    by (simp only: calculate_success_levels [OF assms(1)] assms(2) option.case)
  have l2: "fibo_levels (fst (calculate ind bars now)) n2 =
      Some (if trend (fst (calculate ind bars now)) = ''BULLISH''
            then fadd (low_value (fst (calculate ind bars now)))
                   (fmul (fibo_range (fst (calculate ind bars now))) r2)
            else fsub (high_value (fst (calculate ind bars now)))
                   (fmul (fibo_range (fst (calculate ind bars now))) r2))"
    by (simp only: calculate_success_levels [OF assms(1)] assms(3) option.case)
  have "\<exists>p1 p2.
      fibo_levels (fst (calculate ind bars now)) n1 = Some p1 \<and>
      fibo_levels (fst (calculate ind bars now)) n2 = Some p2 \<and>
      (trend (fst (calculate ind bars now)) = ''BULLISH'' \<longrightarrow> p1 \<le> p2) \<and>
      (trend (fst (calculate ind bars now)) = ''BEARISH'' \<longrightarrow> p2 \<le> p1)"
    using prod by (auto simp add: l1 l2 fadd_mono fsub_antimono)
  with rg calculate_success_range(3) [OF assms(1)] show ?thesis by blast
qed

theorem level_prices_monotone_witness:
  "error (fst (calculate (AutoFibIndicator_init 5 0) scenario_A ''2024-01-02T10:00:00'')) = '''' \<and>
   fibo_level_values (AutoFibIndicator_init 5 0) ''level_2'' = Some (rnd 0.382) \<and>
   fibo_level_values (AutoFibIndicator_init 5 0) ''level_4'' = Some (rnd 0.618) \<and>
   rnd 0.382 \<le> rnd 0.618 \<and>
   trend (fst (calculate (AutoFibIndicator_init 5 0) scenario_A ''2024-01-02T10:00:00''))
     = ''BULLISH'' \<and>
   fibo_levels (fst (calculate (AutoFibIndicator_init 5 0) scenario_A ''2024-01-02T10:00:00''))
     ''level_2'' = Some (6439021567232967 / 562949953421312) \<and>
   fibo_levels (fst (calculate (AutoFibIndicator_init 5 0) scenario_A ''2024-01-02T10:00:00''))
     ''level_4'' = Some (3817363634149917 / 281474976710656) \<and>
   (6439021567232967 / 562949953421312 :: rat) \<le> 3817363634149917 / 281474976710656"
proof -
  let ?r = "fst (calculate (AutoFibIndicator_init 5 0) scenario_A ''2024-01-02T10:00:00'')"
  have ratios: "fibo_level_values (AutoFibIndicator_init 5 0) ''level_2'' = Some (rnd 0.382)"
    "fibo_level_values (AutoFibIndicator_init 5 0) ''level_4'' = Some (rnd 0.618)"
    by (simp_all only: AutoFibIndicator_init_config default_levels_named)
  have le: "rnd 0.382 \<le> rnd 0.618"
    by (rule rnd_mono) simp
  have prices: "fibo_levels ?r ''level_2'' = Some (6439021567232967 / 562949953421312)"
    "fibo_levels ?r ''level_4'' = Some (3817363634149917 / 281474976710656)"
    by (simp_all only: calculate_success_levels [OF scenario_A_ok] ratios option.case
        scenario_A_fields scenario_A_sums simp_thms if_True)
  from level_prices_monotone [OF scenario_A_ok ratios le, of "''2024-01-02T10:00:00''"]
  obtain p1 p2 where "fibo_levels ?r ''level_2'' = Some p1" "fibo_levels ?r ''level_4'' = Some p2"
    "trend ?r = ''BULLISH'' \<longrightarrow> p1 \<le> p2"
    by blast
  with prices scenario_A_fields(1) [of "''2024-01-02T10:00:00''"]
  have "(6439021567232967 / 562949953421312 :: rat) \<le> 3817363634149917 / 281474976710656"
    by simp
  with scenario_A_ok ratios le scenario_A_fields(1) prices show ?thesis by blast
qed

end
